theory Spec2Isabelle
  imports Main "HOL-Library.Word"
begin

unbundle bit_operations_syntax

section \<open>The directory watcher (watch.c): data model\<close>

text \<open>
  The watcher keeps \<^verbatim>\<open>struct ds_file_s\<close> and \<^verbatim>\<open>struct ds_dir_s\<close> nodes on the C heap and
  refers to them by pointer from three places: the owning directory's arrays, the
  change queue and the watch index.  The model keeps that aliasing: a node pointer is
  an address (\<open>nat\<close>), \<open>NULL\<close> is \<open>None\<close>, and the two heaps map addresses to node
  records.  An address outside a heap's domain is a freed (or never allocated) node.
  C gives no meaning to a dereference of such a pointer; the model gives it the result
  of the function's \<open>NULL\<close> branch, and theorems that depend on liveness say so.

  \<open>absolute_path\<close>, \<open>path\<close> and \<open>leaf\<close> of a node are set when it is created and
  cleared only by the remove functions immediately before \<open>free()\<close>, so a live node has
  all three and they are plain strings; \<open>time_t\<close> and \<open>off_t\<close> values are only copied
  and compared and are integers.
\<close>

datatype file_type = S_IFREG | S_IFDIR | S_IFOTHER

record stat =
  st_mode :: file_type
  st_dev :: nat
  st_mtime :: int
  st_size :: int

text \<open>What the kernel and the C library answer during one call of a watcher function.
  \<open>lstat\<close> gives \<open>None\<close> where \<^verbatim>\<open>lstat()\<close> returns nonzero; \<open>scandir\<close> gives the
  directory's entry names in \<^verbatim>\<open>alphasort\<close> order before the filter is applied, or \<open>None\<close>
  where \<^verbatim>\<open>scandir()\<close> returns a negative count; \<open>inotify_add_watch\<close> gives the watch
  descriptor for a path (negative on error); \<open>fnmatch pat name\<close> is
  \<^verbatim>\<open>fnmatch(pat, name, 0)\<close>.\<close>

record world =
  lstat :: "string \<Rightarrow> stat option"
  scandir :: "string \<Rightarrow> string list option"
  inotify_add_watch :: "string \<Rightarrow> int"
  fnmatch :: "string \<Rightarrow> string \<Rightarrow> int"

record ds_file_s =
  f_absolute_path :: string
  f_path :: string
  f_leaf :: string
  f_mtime :: int
  f_size :: int
  f_parent :: "nat option"
  f_seen_in_rescan :: bool

record ds_dir_s =
  d_absolute_path :: string
  d_path :: string
  d_leaf :: string
  d_wd :: int
  d_depth :: nat
  d_files :: "nat list"
  d_subdirs :: "nat list"
  d_parent :: "nat option"
  d_seen_in_rescan :: bool

record ds_change_queue_s =
  cq_when :: int
  cq_file :: "nat option"
  cq_dir :: "nat option"

text \<open>The state of one watcher.  \<^verbatim>\<open>ds_dir_toplevel\<close> and \<^verbatim>\<open>ds_dir_add\<close> give every
  directory the same \<^verbatim>\<open>topdir\<close> pointer and nothing changes it afterwards, so the
  members "used only in the top level directory" are members of the state and
  \<^verbatim>\<open>x->topdir\<close> of a live directory is \<open>topdir\<close>.  An array with its element count is a
  list (a \<open>NULL\<close> array is the empty list; the allocation sizes are not modelled and
  allocation is taken to succeed, since \<^verbatim>\<open>die()\<close> ends the process otherwise).
  \<open>next_addr\<close> is the address \<^verbatim>\<open>calloc\<close> returns next.  The file-scope variables
  \<^verbatim>\<open>max_directory_depth\<close> and \<^verbatim>\<open>excludes\<close> (\<^verbatim>\<open>exclude_count\<close> is its length) are
  set once by \<^verbatim>\<open>watch_dir\<close>.\<close>

record watch_state =
  files :: "nat \<rightharpoonup> ds_file_s"
  dirs :: "nat \<rightharpoonup> ds_dir_s"
  next_addr :: nat
  topdir :: nat
  fd_inotify :: int
  watch_index :: "(int \<times> nat) list"
  change_queue :: "ds_change_queue_s list"
  changed_paths :: "string list"
  max_directory_depth :: nat
  excludes :: "string option list"

section \<open>Path helpers (common.c)\<close>

text \<open>A C string read at an index: the terminating NUL at the string's length.\<close>

definition c_char_at :: "string \<Rightarrow> nat \<Rightarrow> char" where
  "c_char_at s i = (if i < length s then s ! i else CHR 0x00)"

text \<open>The \<^verbatim>\<open>while\<close> loop of \<^verbatim>\<open>ds_leafname_pos\<close>, counting \<open>leafpos\<close> down.\<close>

fun ds_leafname_scan :: "string \<Rightarrow> nat \<Rightarrow> nat" where
  "ds_leafname_scan pathname 0 = 0"
| "ds_leafname_scan pathname (Suc n) =
     (if c_char_at pathname (Suc n) \<noteq> CHR ''/'' then ds_leafname_scan pathname n else Suc n)"

definition ds_leafname_pos :: "string \<Rightarrow> nat" where
  "ds_leafname_pos pathname =
     (let leafpos = ds_leafname_scan pathname (length pathname)
      in if c_char_at pathname leafpos = CHR ''/'' then leafpos + 1 else leafpos)"

definition ds_leafname :: "string \<Rightarrow> string" where
  "ds_leafname pathname = drop (ds_leafname_pos pathname) pathname"

section \<open>Filename filter\<close>

text \<open>The loop over \<^verbatim>\<open>excludes[]\<close> in \<^verbatim>\<open>ds_filename_valid\<close>; a \<open>NULL\<close> slot is skipped.
  \<open>fnm pat name\<close> is the C library's \<^verbatim>\<open>fnmatch(pat, name, 0)\<close>.\<close>

fun ds_filename_valid_excludes :: "(string \<Rightarrow> string \<Rightarrow> int) \<Rightarrow> string option list \<Rightarrow> string \<Rightarrow> int" where
  "ds_filename_valid_excludes fnm [] leafname = 1"
| "ds_filename_valid_excludes fnm (None # es) leafname =
     ds_filename_valid_excludes fnm es leafname"
| "ds_filename_valid_excludes fnm (Some pat # es) leafname =
     (if fnm pat leafname = 0 then 0
      else ds_filename_valid_excludes fnm es leafname)"

text \<open>\<^verbatim>\<open>ds_filename_valid\<close>: 1 if the name is to be included, 0 if it is ignored.
  \<open>excl\<close> is the global array \<^verbatim>\<open>excludes\<close>, \<^verbatim>\<open>exclude_count\<close> its length.\<close>

definition ds_filename_valid :: "(string \<Rightarrow> string \<Rightarrow> int) \<Rightarrow> string option list \<Rightarrow> string \<Rightarrow> int" where
  "ds_filename_valid fnm excl leafname =
     (if leafname = [] then 0
      else if leafname = ''.'' then 0
      else if leafname = ''..'' then 0
      else if length excl > 0 then ds_filename_valid_excludes fnm excl leafname
      else (let namelen = length leafname in
        if 1 \<le> namelen \<and> leafname ! (namelen - 1) = CHR ''~'' then 0
        else if namelen > 4 \<and> drop (namelen - 4) leafname = ''.tmp'' then 0
        else 1))"

section \<open>Change queue\<close>

text \<open>The duplicate check of \<^verbatim>\<open>_ds_change_queue_add\<close>: the loop returns at the first
  slot that already holds the file pointer (when one is given) or the directory pointer
  (when one is given).\<close>

fun change_queue_holds :: "ds_change_queue_s list \<Rightarrow> nat option \<Rightarrow> nat option \<Rightarrow> bool" where
  "change_queue_holds [] file dir = False"
| "change_queue_holds (e # es) file dir =
     (if file \<noteq> None \<and> cq_file e = file then True
      else if dir \<noteq> None \<and> cq_dir e = dir then True
      else change_queue_holds es file dir)"

text \<open>\<^verbatim>\<open>_ds_change_queue_add(topdir, when, file, dir)\<close>.\<close>

definition ds_change_queue_add :: "watch_state \<Rightarrow> int \<Rightarrow> nat option \<Rightarrow> nat option \<Rightarrow> watch_state" where
  "ds_change_queue_add st whn file dir =
     (if file = None \<and> dir = None then st
      else if change_queue_holds (change_queue st) file dir then st
      else st\<lparr>change_queue := change_queue st @ [\<lparr>cq_when = whn, cq_file = file, cq_dir = dir\<rparr>]\<rparr>)"

text \<open>\<^verbatim>\<open>ds_change_queue_file_add(file, when)\<close>; \<open>now\<close> is what \<^verbatim>\<open>time(NULL)\<close> returns.\<close>

definition ds_change_queue_file_add :: "int \<Rightarrow> watch_state \<Rightarrow> nat option \<Rightarrow> int \<Rightarrow> watch_state" where
  "ds_change_queue_file_add now st file whn =
     (case file of None \<Rightarrow> st
      | Some p \<Rightarrow> (case files st p of None \<Rightarrow> st
        | Some f \<Rightarrow> (case f_parent f of None \<Rightarrow> st
          | Some d \<Rightarrow> (case dirs st d of None \<Rightarrow> st
            | Some dr \<Rightarrow> ds_change_queue_add st (if whn = 0 then now + 2 else whn) file None))))"

text \<open>\<^verbatim>\<open>ds_change_queue_file_remove(file)\<close>: every slot holding the pointer has its
  \<open>file\<close> member cleared.  It returns at once for a file whose \<open>parent\<close> is \<open>NULL\<close>.\<close>

definition ds_change_queue_file_remove :: "watch_state \<Rightarrow> nat option \<Rightarrow> watch_state" where
  "ds_change_queue_file_remove st file =
     (case file of None \<Rightarrow> st
      | Some p \<Rightarrow> (case files st p of None \<Rightarrow> st
        | Some f \<Rightarrow> (case f_parent f of None \<Rightarrow> st
          | Some d \<Rightarrow> (case dirs st d of None \<Rightarrow> st
            | Some dr \<Rightarrow> st\<lparr>change_queue :=
                map (\<lambda>e. if cq_file e = file then e\<lparr>cq_file := None\<rparr> else e) (change_queue st)\<rparr>))))"

text \<open>\<^verbatim>\<open>ds_change_queue_dir_add(dir, when)\<close>.\<close>

definition ds_change_queue_dir_add :: "int \<Rightarrow> watch_state \<Rightarrow> nat option \<Rightarrow> int \<Rightarrow> watch_state" where
  "ds_change_queue_dir_add now st dir whn =
     (case dir of None \<Rightarrow> st
      | Some d \<Rightarrow> (case dirs st d of None \<Rightarrow> st
        | Some dr \<Rightarrow> ds_change_queue_add st (if whn = 0 then now else whn) None dir))"

text \<open>\<^verbatim>\<open>ds_change_queue_dir_remove(dir)\<close>.\<close>

definition ds_change_queue_dir_remove :: "watch_state \<Rightarrow> nat option \<Rightarrow> watch_state" where
  "ds_change_queue_dir_remove st dir =
     (case dir of None \<Rightarrow> st
      | Some d \<Rightarrow> (case dirs st d of None \<Rightarrow> st
        | Some dr \<Rightarrow> st\<lparr>change_queue :=
            map (\<lambda>e. if cq_dir e = dir then e\<lparr>cq_dir := None\<rparr> else e) (change_queue st)\<rparr>))"

section \<open>Changed paths\<close>

text \<open>\<^verbatim>\<open>mark_path_changed(topdir, path, isdir)\<close>: the path, with a slash appended for a
  directory, is appended unless the list already holds it.\<close>

definition mark_path_changed :: "watch_state \<Rightarrow> string \<Rightarrow> bool \<Rightarrow> watch_state" where
  "mark_path_changed st pth isdir =
     (let savepath = pth @ (if isdir then ''/'' else [])
      in if savepath \<in> set (changed_paths st) then st
         else st\<lparr>changed_paths := changed_paths st @ [savepath]\<rparr>)"

text \<open>What \<^verbatim>\<open>dump_changed_paths\<close> meets outside the process: the name built from the
  save directory, the local time and the pid; whether \<^verbatim>\<open>mkstemp\<close> (in \<^verbatim>\<open>ds_tmpfile\<close>),
  \<^verbatim>\<open>fdopen\<close> and \<^verbatim>\<open>rename\<close> succeed.\<close>

record dump_env =
  savefile :: string
  mkstemp_ok :: bool
  fdopen_ok :: bool
  rename_ok :: bool

text \<open>What a call of \<^verbatim>\<open>dump_changed_paths\<close> leaves behind: nothing because it returned
  before creating a file; nothing because \<^verbatim>\<open>ds_tmpfile\<close> called \<^verbatim>\<open>die()\<close>; nothing because
  the temporary file was removed again; or the batch file under its final name, with
  its lines in order.\<close>

datatype dump_result =
    DUMP_SKIPPED
  | DUMP_DIED
  | DUMP_FAILED
  | DUMP_WRITTEN string "string list"

definition dump_changed_paths :: "dump_env \<Rightarrow> watch_state \<Rightarrow> dump_result \<times> watch_state" where
  "dump_changed_paths env st =
     (if changed_paths st = [] then (DUMP_SKIPPED, st)
      else if length (changed_paths st) \<le> 0 then (DUMP_SKIPPED, st)
      else if \<not> mkstemp_ok env then (DUMP_DIED, st)
      else if \<not> fdopen_ok env then (DUMP_FAILED, st)
      else if \<not> rename_ok env then (DUMP_FAILED, st)
      else (DUMP_WRITTEN (savefile env) (changed_paths st), st\<lparr>changed_paths := []\<rparr>))"

section \<open>File nodes\<close>

text \<open>The search loops over \<^verbatim>\<open>dir->files\<close> and \<^verbatim>\<open>dir->subdirs\<close> by leafname
  (\<^verbatim>\<open>strcmp(...->leaf, name) == 0\<close>), returning the first match.\<close>

definition find_file_by_leaf :: "watch_state \<Rightarrow> nat list \<Rightarrow> string \<Rightarrow> nat option" where
  "find_file_by_leaf st ps name =
     find (\<lambda>p. case files st p of None \<Rightarrow> False | Some f \<Rightarrow> f_leaf f = name) ps"

definition find_dir_by_leaf :: "watch_state \<Rightarrow> nat list \<Rightarrow> string \<Rightarrow> nat option" where
  "find_dir_by_leaf st ps name =
     find (\<lambda>p. case dirs st p of None \<Rightarrow> False | Some d \<Rightarrow> d_leaf d = name) ps"

text \<open>The length of the top-level directory's absolute path, which \<^verbatim>\<open>ds_file_add\<close> and
  \<^verbatim>\<open>ds_dir_add\<close> skip (with the slash after it) to get a node's relative path.\<close>

definition top_path_length :: "watch_state \<Rightarrow> ds_dir_s \<Rightarrow> nat" where
  "top_path_length st dr =
     (case dirs st (topdir st) of
        Some t \<Rightarrow> length (d_absolute_path t)
      | None \<Rightarrow> length (d_absolute_path dr))"

text \<open>\<^verbatim>\<open>ds_file_add(dir, name)\<close>: the existing file of that leafname, or a new node with
  zero \<open>mtime\<close> and \<open>size\<close> (from \<^verbatim>\<open>calloc\<close>) appended to the directory's array.\<close>

definition ds_file_add :: "watch_state \<Rightarrow> nat option \<Rightarrow> string \<Rightarrow> nat option \<times> watch_state" where
  "ds_file_add st dir name =
     (case dir of None \<Rightarrow> (None, st)
      | Some d \<Rightarrow> (case dirs st d of None \<Rightarrow> (None, st)
        | Some dr \<Rightarrow> (case find_file_by_leaf st (d_files dr) name of
            Some p \<Rightarrow> (Some p, st)
          | None \<Rightarrow>
             (let p = next_addr st;
                  ap = d_absolute_path dr @ ''/'' @ name;
                  file = \<lparr>f_absolute_path = ap,
                          f_path = drop (top_path_length st dr + 1) ap,
                          f_leaf = ds_leafname ap,
                          f_mtime = 0, f_size = 0,
                          f_parent = Some d, f_seen_in_rescan = False\<rparr>
              in (Some p, st\<lparr>files := (files st)(p \<mapsto> file),
                              dirs := (dirs st)(d \<mapsto> dr\<lparr>d_files := d_files dr @ [p]\<rparr>),
                              next_addr := Suc p\<rparr>)))))"

text \<open>\<^verbatim>\<open>ds_file_remove(file)\<close>: the parent's array loses every entry whose leafname equals
  the file's, the queue loses the file (through \<^verbatim>\<open>ds_change_queue_file_remove\<close>, which
  reads \<open>file->parent\<close>), and the node is freed.\<close>

definition ds_file_remove :: "watch_state \<Rightarrow> nat option \<Rightarrow> watch_state" where
  "ds_file_remove st file =
     (case file of None \<Rightarrow> st
      | Some p \<Rightarrow> (case files st p of None \<Rightarrow> st
        | Some f \<Rightarrow>
           (let st1 = (case f_parent f of None \<Rightarrow> st
                  | Some d \<Rightarrow> (case dirs st d of None \<Rightarrow> st
                    | Some dr \<Rightarrow> st\<lparr>dirs := (dirs st)(d \<mapsto> dr\<lparr>d_files :=
                        filter (\<lambda>q. case files st q of None \<Rightarrow> True
                                     | Some g \<Rightarrow> f_leaf g \<noteq> f_leaf f) (d_files dr)\<rparr>)\<rparr>));
                st2 = ds_change_queue_file_remove st1 file
            in st2\<lparr>files := (files st2)(p := None)\<rparr>)))"

text \<open>\<^verbatim>\<open>ds_file_checkchanged(file)\<close>: -1 if the file is gone or not a regular file, 0 if
  \<open>mtime\<close> and \<open>size\<close> are as stored, and otherwise 1 after storing the observed values.\<close>

definition ds_file_checkchanged :: "world \<Rightarrow> watch_state \<Rightarrow> nat option \<Rightarrow> int \<times> watch_state" where
  "ds_file_checkchanged w st file =
     (case file of None \<Rightarrow> (-1, st)
      | Some p \<Rightarrow> (case files st p of None \<Rightarrow> (-1, st)
        | Some f \<Rightarrow> (case lstat w (f_absolute_path f) of None \<Rightarrow> (-1, st)
          | Some sb \<Rightarrow>
             if st_mode sb \<noteq> S_IFREG then (-1, st)
             else if st_mtime sb = f_mtime f \<and> st_size sb = f_size f then (0, st)
             else (1, st\<lparr>files := (files st)(p \<mapsto> f\<lparr>f_mtime := st_mtime sb, f_size := st_size sb\<rparr>)\<rparr>))))"

section \<open>Watch index\<close>

text \<open>\<^verbatim>\<open>ds_watch_index_add(dir, wd)\<close> and \<^verbatim>\<open>ds_watch_index_remove(topdir, wd)\<close>.\<close>

definition ds_watch_index_add :: "watch_state \<Rightarrow> nat \<Rightarrow> int \<Rightarrow> watch_state" where
  "ds_watch_index_add st d wd =
     (if 0 > wd then st else st\<lparr>watch_index := watch_index st @ [(wd, d)]\<rparr>)"

definition ds_watch_index_remove :: "watch_state \<Rightarrow> int \<Rightarrow> watch_state" where
  "ds_watch_index_remove st wd =
     st\<lparr>watch_index := filter (\<lambda>e. fst e \<noteq> wd) (watch_index st)\<rparr>"

section \<open>Directory nodes\<close>

text \<open>\<^verbatim>\<open>ds_dir_toplevel(fd_inotify, top_path)\<close>, together with the assignments of
  \<^verbatim>\<open>watch_dir\<close> to \<^verbatim>\<open>max_directory_depth\<close> and \<^verbatim>\<open>excludes\<close> that precede the call: the
  state a watcher starts from.  It holds one directory node, at the address \<open>a\<close> that
  \<^verbatim>\<open>calloc\<close> gave, with the absolute path \<open>real_path\<close> that \<^verbatim>\<open>realpath(top_path)\<close> gave, an
  empty relative path and leafname (both point at the terminating NUL), no watch, depth 0,
  no parent and no entries; the zeroed top-level members are the empty watch index, change
  queue and changed paths.  Either library call failing ends the process in \<^verbatim>\<open>die()\<close>.\<close>

definition ds_dir_toplevel :: "nat \<Rightarrow> nat \<Rightarrow> string option list \<Rightarrow> int \<Rightarrow> string \<Rightarrow> watch_state" where
  "ds_dir_toplevel a max_depth excl fd real_path =
     \<lparr>files = Map.empty,
      dirs = [a \<mapsto> \<lparr>d_absolute_path = real_path, d_path = [], d_leaf = [], d_wd = -1,
                     d_depth = 0, d_files = [], d_subdirs = [], d_parent = None,
                     d_seen_in_rescan = False\<rparr>],
      next_addr = Suc a, topdir = a, fd_inotify = fd, watch_index = [],
      change_queue = [], changed_paths = [],
      max_directory_depth = max_depth, excludes = excl\<rparr>"

text \<open>\<^verbatim>\<open>ds_dir_add(dir, name)\<close>: \<open>NULL\<close> when the parent is already at the depth limit,
  the existing subdirectory of that leafname, or a new node appended to the parent's
  array.\<close>

definition ds_dir_add :: "watch_state \<Rightarrow> nat option \<Rightarrow> string \<Rightarrow> nat option \<times> watch_state" where
  "ds_dir_add st dir name =
     (case dir of None \<Rightarrow> (None, st)
      | Some d \<Rightarrow> (case dirs st d of None \<Rightarrow> (None, st)
        | Some dr \<Rightarrow>
           if d_depth dr \<ge> max_directory_depth st then (None, st)
           else (case find_dir_by_leaf st (d_subdirs dr) name of
               Some q \<Rightarrow> (Some q, st)
             | None \<Rightarrow>
                (let q = next_addr st;
                     ap = d_absolute_path dr @ ''/'' @ name;
                     subdir = \<lparr>d_absolute_path = ap,
                               d_path = drop (top_path_length st dr + 1) ap,
                               d_leaf = ds_leafname ap,
                               d_wd = -1, d_depth = d_depth dr + 1,
                               d_files = [], d_subdirs = [],
                               d_parent = Some d, d_seen_in_rescan = False\<rparr>
                 in (Some q, st\<lparr>dirs := (dirs st)(d \<mapsto> dr\<lparr>d_subdirs := d_subdirs dr @ [q]\<rparr>,
                                                   q \<mapsto> subdir),
                                 next_addr := Suc q\<rparr>)))))"

text \<open>The first loop of \<^verbatim>\<open>ds_dir_remove\<close>: each file has its \<open>parent\<close> wiped and is then
  removed; the array is freed.  With the parent wiped, \<^verbatim>\<open>ds_file_remove\<close> touches neither
  the array being walked nor (through \<^verbatim>\<open>ds_change_queue_file_remove\<close>) the queue.\<close>

definition ds_dir_remove_files :: "watch_state \<Rightarrow> nat \<Rightarrow> watch_state" where
  "ds_dir_remove_files st d =
     (case dirs st d of None \<Rightarrow> st
      | Some dr \<Rightarrow>
         (let st1 = fold (\<lambda>p s. case files s p of None \<Rightarrow> s
                       | Some f \<Rightarrow> ds_file_remove (s\<lparr>files := (files s)(p \<mapsto> f\<lparr>f_parent := None\<rparr>)\<rparr>) (Some p))
                     (d_files dr) st
          in (case dirs st1 d of None \<Rightarrow> st1
              | Some dr1 \<Rightarrow> st1\<lparr>dirs := (dirs st1)(d \<mapsto> dr1\<lparr>d_files := []\<rparr>)\<rparr>)))"

text \<open>The tail of \<^verbatim>\<open>ds_dir_remove\<close>, after the children are gone: the parent's array
  loses every entry with the directory's leafname, the queue loses the directory, the
  top-level members are freed if this is the top-level directory, and the node is
  freed.\<close>

definition ds_dir_remove_finish :: "watch_state \<Rightarrow> nat \<Rightarrow> watch_state" where
  "ds_dir_remove_finish st d =
     (case dirs st d of None \<Rightarrow> st
      | Some dr \<Rightarrow>
         (let st1 = st\<lparr>dirs := (dirs st)(d \<mapsto> dr\<lparr>d_subdirs := []\<rparr>)\<rparr>;
              st2 = (case d_parent dr of None \<Rightarrow> st1
                | Some pd \<Rightarrow> (case dirs st1 pd of None \<Rightarrow> st1
                  | Some pr \<Rightarrow> st1\<lparr>dirs := (dirs st1)(pd \<mapsto> pr\<lparr>d_subdirs :=
                      filter (\<lambda>q. case dirs st1 q of None \<Rightarrow> True
                                   | Some g \<Rightarrow> d_leaf g \<noteq> d_leaf dr) (d_subdirs pr)\<rparr>)\<rparr>));
              st3 = ds_change_queue_dir_remove st2 (Some d);
              st4 = (if d = topdir st3
                     then st3\<lparr>watch_index := [], change_queue := [], changed_paths := []\<rparr>
                     else st3)
          in st4\<lparr>dirs := (dirs st4)(d := None)\<rparr>))"

text \<open>\<^verbatim>\<open>ds_dir_remove(dir)\<close>.  The recursion follows the heap, so it carries fuel: \<open>None\<close>
  is "fuel ran out".  In a tree-shaped heap the loop over \<open>dir->subdirs\<close> never changes
  the array it walks (each child's \<open>parent\<close> is wiped before the recursive call), so the
  loop is a fold over the array as it stands at loop entry.\<close>

fun ds_dir_remove :: "nat \<Rightarrow> watch_state \<Rightarrow> nat option \<Rightarrow> watch_state option" where
  "ds_dir_remove 0 st dir = None"
| "ds_dir_remove (Suc n) st dir =
     (case dir of None \<Rightarrow> Some st
      | Some d \<Rightarrow> (case dirs st d of None \<Rightarrow> Some st
        | Some dr \<Rightarrow>
           (let st1 = (if 0 \<le> d_wd dr \<and> 0 \<le> fd_inotify st
                       then (let s = ds_watch_index_remove st (d_wd dr)
                             in s\<lparr>dirs := (dirs s)(d \<mapsto> dr\<lparr>d_wd := -1\<rparr>)\<rparr>)
                       else st);
                st2 = ds_dir_remove_files st1 d
            in (case fold (\<lambda>q r. case r of None \<Rightarrow> None
                            | Some s \<Rightarrow> (case dirs s q of None \<Rightarrow> Some s
                              | Some g \<Rightarrow> ds_dir_remove n
                                  (s\<lparr>dirs := (dirs s)(q \<mapsto> g\<lparr>d_parent := None\<rparr>)\<rparr>) (Some q)))
                      (case dirs st2 d of None \<Rightarrow> [] | Some dr2 \<Rightarrow> d_subdirs dr2) (Some st2) of
                  None \<Rightarrow> None
                | Some st3 \<Rightarrow> Some (ds_dir_remove_finish st3 d)))))"

section \<open>Directory scan\<close>

definition file_seen :: "watch_state \<Rightarrow> nat \<Rightarrow> bool" where
  "file_seen st p = (case files st p of None \<Rightarrow> False | Some f \<Rightarrow> f_seen_in_rescan f)"

definition dir_seen :: "watch_state \<Rightarrow> nat \<Rightarrow> bool" where
  "dir_seen st q = (case dirs st q of None \<Rightarrow> False | Some g \<Rightarrow> d_seen_in_rescan g)"

definition set_file_seen :: "bool \<Rightarrow> nat \<Rightarrow> watch_state \<Rightarrow> watch_state" where
  "set_file_seen b p st =
     (case files st p of None \<Rightarrow> st
      | Some f \<Rightarrow> st\<lparr>files := (files st)(p \<mapsto> f\<lparr>f_seen_in_rescan := b\<rparr>)\<rparr>)"

definition set_dir_seen :: "bool \<Rightarrow> nat \<Rightarrow> watch_state \<Rightarrow> watch_state" where
  "set_dir_seen b q st =
     (case dirs st q of None \<Rightarrow> st
      | Some g \<Rightarrow> st\<lparr>dirs := (dirs st)(q \<mapsto> g\<lparr>d_seen_in_rescan := b\<rparr>)\<rparr>)"

text \<open>The two loops of \<^verbatim>\<open>ds_dir_scan\<close> that mark every subdirectory and file as not
  seen.\<close>

definition ds_dir_scan_clear_seen :: "watch_state \<Rightarrow> nat \<Rightarrow> watch_state" where
  "ds_dir_scan_clear_seen st d =
     (case dirs st d of None \<Rightarrow> st
      | Some dr \<Rightarrow> fold (set_file_seen False) (d_files dr)
                    (fold (set_dir_seen False) (d_subdirs dr) st))"

text \<open>The body of the loop over the directory listing: a regular file is added and
  marked seen, a directory on the same device is added and marked seen, anything else
  is ignored.\<close>

definition ds_dir_scan_item :: "world \<Rightarrow> nat \<Rightarrow> stat \<Rightarrow> string \<Rightarrow> watch_state \<Rightarrow> watch_state" where
  "ds_dir_scan_item w d dirsb name st =
     (case dirs st d of None \<Rightarrow> st
      | Some dr \<Rightarrow>
         (let item_full_path = d_absolute_path dr @ ''/'' @ name;
              item_leaf = ds_leafname item_full_path
          in if ds_filename_valid (fnmatch w) (excludes st) item_leaf = 0 then st
             else (case lstat w item_full_path of None \<Rightarrow> st
               | Some sb \<Rightarrow>
                  if st_mode sb = S_IFREG then
                    (case ds_file_add st (Some d) item_leaf of
                       (None, st1) \<Rightarrow> st1
                     | (Some p, st1) \<Rightarrow> set_file_seen True p st1)
                  else if st_mode sb = S_IFDIR then
                    (if st_dev sb = st_dev dirsb then
                       (case ds_dir_add st (Some d) item_leaf of
                          (None, st1) \<Rightarrow> st1
                        | (Some q, st1) \<Rightarrow> set_dir_seen True q st1)
                     else st)
                  else st)))"

text \<open>The loop that deletes the files not seen on rescan.  \<^verbatim>\<open>fileidx--\<close> followed by the
  loop's \<^verbatim>\<open>fileidx++\<close> leaves the index where it was.  \<open>None\<close> is "fuel ran out".\<close>

fun ds_dir_scan_unseen_files :: "nat \<Rightarrow> watch_state \<Rightarrow> nat \<Rightarrow> nat \<Rightarrow> watch_state option" where
  "ds_dir_scan_unseen_files 0 st d fileidx = None"
| "ds_dir_scan_unseen_files (Suc n) st d fileidx =
     (case dirs st d of None \<Rightarrow> Some st
      | Some dr \<Rightarrow>
         if fileidx < length (d_files dr) then
           (let p = d_files dr ! fileidx
            in if file_seen st p then ds_dir_scan_unseen_files n st d (fileidx + 1)
               else ds_dir_scan_unseen_files n (ds_file_remove st (Some p)) d fileidx)
         else Some st)"

text \<open>The loop that checks all files for changes (watch.c, "Check all files for
  changes"): the result of \<^verbatim>\<open>ds_file_checkchanged\<close> is used only to remove a file for
  which it is negative.\<close>

fun ds_dir_scan_checkfiles :: "nat \<Rightarrow> world \<Rightarrow> watch_state \<Rightarrow> nat \<Rightarrow> nat \<Rightarrow> watch_state option" where
  "ds_dir_scan_checkfiles 0 w st d fileidx = None"
| "ds_dir_scan_checkfiles (Suc n) w st d fileidx =
     (case dirs st d of None \<Rightarrow> Some st
      | Some dr \<Rightarrow>
         if fileidx < length (d_files dr) then
           (let p = d_files dr ! fileidx
            in (case ds_file_checkchanged w st (Some p) of
                  (changed, st1) \<Rightarrow>
                    if 0 > changed
                    then ds_dir_scan_checkfiles n w (ds_file_remove st1 (Some p)) d fileidx
                    else ds_dir_scan_checkfiles n w st1 d (fileidx + 1)))
         else Some st)"

text \<open>The last step of \<^verbatim>\<open>ds_dir_scan\<close>: a directory without a watch gets one.\<close>

definition ds_dir_scan_add_watch :: "world \<Rightarrow> watch_state \<Rightarrow> nat \<Rightarrow> watch_state" where
  "ds_dir_scan_add_watch w st d =
     (case dirs st d of None \<Rightarrow> st
      | Some dr \<Rightarrow>
         if 0 > d_wd dr \<and> 0 \<le> fd_inotify st then
           (let wd = inotify_add_watch w (d_absolute_path dr);
                st1 = st\<lparr>dirs := (dirs st)(d \<mapsto> dr\<lparr>d_wd := wd\<rparr>)\<rparr>
            in if 0 > wd then st1 else ds_watch_index_add st1 d wd)
         else st)"

text \<open>\<^verbatim>\<open>ds_dir_scan(dir, no_recurse)\<close> with its loop over the subdirectories, which
  removes the ones not seen and scans the others.  The result is the return value (1:
  the scan failed and the directory was removed) and the state; \<open>None\<close> is "fuel ran
  out".\<close>

fun ds_dir_scan :: "nat \<Rightarrow> world \<Rightarrow> watch_state \<Rightarrow> nat option \<Rightarrow> bool \<Rightarrow> (int \<times> watch_state) option"
  and ds_dir_scan_subdirs :: "nat \<Rightarrow> world \<Rightarrow> watch_state \<Rightarrow> nat \<Rightarrow> bool \<Rightarrow> nat \<Rightarrow> watch_state option"
where
  "ds_dir_scan 0 w st dir no_recurse = None"
| "ds_dir_scan (Suc n) w st dir no_recurse =
     (case dir of None \<Rightarrow> Some (1, st)
      | Some d \<Rightarrow> (case dirs st d of None \<Rightarrow> Some (1, st)
        | Some dr \<Rightarrow>
           if d_depth dr > max_directory_depth st
           then map_option (Pair 1) (ds_dir_remove n st dir)
           else (case lstat w (d_absolute_path dr) of
               None \<Rightarrow> map_option (Pair 1) (ds_dir_remove n st dir)
             | Some dirsb \<Rightarrow> (case scandir w (d_absolute_path dr) of
                 None \<Rightarrow> map_option (Pair 1) (ds_dir_remove n st dir)
               | Some names \<Rightarrow>
                  (let namelist = filter (\<lambda>nm. ds_filename_valid (fnmatch w) (excludes st) nm \<noteq> 0) names;
                       st1 = ds_dir_scan_clear_seen st d;
                       st2 = fold (ds_dir_scan_item w d dirsb) namelist st1
                   in (case ds_dir_scan_subdirs n w st2 d no_recurse 0 of None \<Rightarrow> None
                       | Some st3 \<Rightarrow> (case ds_dir_scan_unseen_files n st3 d 0 of None \<Rightarrow> None
                         | Some st4 \<Rightarrow> (case ds_dir_scan_checkfiles n w st4 d 0 of None \<Rightarrow> None
                           | Some st5 \<Rightarrow> Some (0, ds_dir_scan_add_watch w st5 d)))))))))"
| "ds_dir_scan_subdirs 0 w st d no_recurse diridx = None"
| "ds_dir_scan_subdirs (Suc n) w st d no_recurse diridx =
     (case dirs st d of None \<Rightarrow> Some st
      | Some dr \<Rightarrow>
         if diridx < length (d_subdirs dr) then
           (let q = d_subdirs dr ! diridx
            in if dir_seen st q then
                 (if no_recurse then ds_dir_scan_subdirs n w st d no_recurse (diridx + 1)
                  else (case ds_dir_scan n w st (Some q) False of None \<Rightarrow> None
                    | Some (rc, st1) \<Rightarrow>
                       if rc \<noteq> 0 then ds_dir_scan_subdirs n w st1 d no_recurse diridx
                       else ds_dir_scan_subdirs n w st1 d no_recurse (diridx + 1)))
               else (case ds_dir_remove n st (Some q) of None \<Rightarrow> None
                 | Some st1 \<Rightarrow> ds_dir_scan_subdirs n w st1 d no_recurse diridx))
         else Some st)"

section \<open>Inotify events on files\<close>

text \<open>An event as \<^verbatim>\<open>process_inotify_events\<close> reads it, with the mask bits of
  \<^verbatim>\<open><sys/inotify.h>\<close> that the watcher tests.\<close>

record inotify_event =
  ev_wd :: int
  ev_mask :: "32 word"
  ev_name :: string

definition IN_MODIFY :: "32 word" where "IN_MODIFY = 0x00000002"
definition IN_ATTRIB :: "32 word" where "IN_ATTRIB = 0x00000004"
definition IN_MOVED_FROM :: "32 word" where "IN_MOVED_FROM = 0x00000040"
definition IN_MOVED_TO :: "32 word" where "IN_MOVED_TO = 0x00000080"
definition IN_CREATE :: "32 word" where "IN_CREATE = 0x00000100"
definition IN_DELETE :: "32 word" where "IN_DELETE = 0x00000200"
definition IN_DELETE_SELF :: "32 word" where "IN_DELETE_SELF = 0x00000400"
definition IN_ISDIR :: "32 word" where "IN_ISDIR = 0x40000000"

datatype inotify_action_t =
    IN_ACTION_CREATE
  | IN_ACTION_UPDATE
  | IN_ACTION_DELETE
  | IN_ACTION_NONE

text \<open>\<^verbatim>\<open>mark_path_changed(file->parent->topdir, file->parent->path, 1)\<close>, as called for a
  file that is being removed.\<close>

definition mark_parent_changed :: "watch_state \<Rightarrow> nat option \<Rightarrow> watch_state" where
  "mark_parent_changed st file =
     (case file of None \<Rightarrow> st
      | Some p \<Rightarrow> (case files st p of None \<Rightarrow> st
        | Some f \<Rightarrow> (case f_parent f of None \<Rightarrow> st
          | Some d \<Rightarrow> (case dirs st d of None \<Rightarrow> st
            | Some dr \<Rightarrow> mark_path_changed st (d_path dr) True))))"

text \<open>\<^verbatim>\<open>mark_path_changed(file->parent->topdir, file->path, 0)\<close>, as called for a file
  found changed.\<close>

definition mark_file_changed :: "watch_state \<Rightarrow> nat option \<Rightarrow> watch_state" where
  "mark_file_changed st file =
     (case file of None \<Rightarrow> st
      | Some p \<Rightarrow> (case files st p of None \<Rightarrow> st
        | Some f \<Rightarrow> (case f_parent f of None \<Rightarrow> st
          | Some d \<Rightarrow> (case dirs st d of None \<Rightarrow> st
            | Some dr \<Rightarrow> mark_path_changed st (f_path f) False))))"

text \<open>The action \<^verbatim>\<open>process_file_change\<close> chooses from the event mask and from whether
  the named file is already known.\<close>

definition file_change_action :: "32 word \<Rightarrow> nat option \<Rightarrow> inotify_action_t" where
  "file_change_action evmask file =
     (if evmask AND (IN_ATTRIB OR IN_CREATE OR IN_MODIFY OR IN_MOVED_TO) \<noteq> 0
      then (if file \<noteq> None then IN_ACTION_UPDATE else IN_ACTION_CREATE)
      else if evmask AND (IN_DELETE OR IN_MOVED_FROM) \<noteq> 0 \<and> file \<noteq> None
      then IN_ACTION_DELETE
      else IN_ACTION_NONE)"

text \<open>\<^verbatim>\<open>process_file_change(event, dir)\<close>; \<open>now\<close> is what \<^verbatim>\<open>time(NULL)\<close> returns.\<close>

definition process_file_change :: "world \<Rightarrow> int \<Rightarrow> watch_state \<Rightarrow> inotify_event \<Rightarrow> nat \<Rightarrow> watch_state" where
  "process_file_change w now st event d =
     (case dirs st d of None \<Rightarrow> st
      | Some dr \<Rightarrow>
         (let file = find_file_by_leaf st (d_files dr) (ev_name event)
          in (case file_change_action (ev_mask event) file of
                IN_ACTION_NONE \<Rightarrow> st
              | IN_ACTION_CREATE \<Rightarrow>
                  if ds_filename_valid (fnmatch w) (excludes st) (ev_name event) = 0 then st
                  else (case lstat w (d_absolute_path dr @ ''/'' @ ev_name event) of
                      None \<Rightarrow> st
                    | Some sb \<Rightarrow>
                       if st_mode sb \<noteq> S_IFREG then st
                       else (case ds_file_add st (Some d) (ev_name event) of
                           (newfile, st1) \<Rightarrow> ds_change_queue_file_add now st1 newfile 0))
              | IN_ACTION_UPDATE \<Rightarrow> ds_change_queue_file_add now st file 0
              | IN_ACTION_DELETE \<Rightarrow> ds_file_remove (mark_parent_changed st file) file)))"

section \<open>Processing the change queue\<close>

text \<open>The loop of \<^verbatim>\<open>ds_change_queue_process(topdir, work_until)\<close> from \<open>readidx\<close> and
  \<open>writeidx\<close> on; \<open>clock readidx\<close> is what \<^verbatim>\<open>time(&now)\<close> gives when the slot \<open>readidx\<close>
  is examined.  The result is the state and the final \<open>writeidx\<close>; \<open>None\<close> is "fuel ran
  out".

  A slot that is kept (not yet due, or the time budget is used up) is copied down to
  \<open>writeidx\<close> if the two indices differ, and in that case \<open>writeidx\<close> is incremented
  twice, as the source has it.\<close>

fun ds_change_queue_process_loop ::
  "nat \<Rightarrow> world \<Rightarrow> (nat \<Rightarrow> int) \<Rightarrow> int \<Rightarrow> watch_state \<Rightarrow> nat \<Rightarrow> nat \<Rightarrow> (watch_state \<times> nat) option" where
  "ds_change_queue_process_loop 0 w clock work_until st readidx writeidx = None"
| "ds_change_queue_process_loop (Suc n) w clock work_until st readidx writeidx =
     (if readidx < length (change_queue st) then
        (let entry = change_queue st ! readidx
         in if cq_file entry = None \<and> cq_dir entry = None
            then ds_change_queue_process_loop n w clock work_until st (readidx + 1) writeidx
            else
              (let now = clock readidx
               in if cq_when entry > now \<or> now \<ge> work_until then
                    (if readidx \<noteq> writeidx
                     then ds_change_queue_process_loop n w clock work_until
                            (st\<lparr>change_queue := (change_queue st)[writeidx := entry]\<rparr>)
                            (readidx + 1) (writeidx + 1 + 1)
                     else ds_change_queue_process_loop n w clock work_until st
                            (readidx + 1) (writeidx + 1))
                  else if cq_file entry \<noteq> None then
                    (let file = cq_file entry;
                         st1 = st\<lparr>change_queue := (change_queue st)[readidx := entry\<lparr>cq_file := None\<rparr>]\<rparr>
                     in (case ds_file_checkchanged w st1 file of
                           (changed, st2) \<Rightarrow>
                             ds_change_queue_process_loop n w clock work_until
                               (if 0 > changed then ds_file_remove (mark_parent_changed st2 file) file
                                else if 0 < changed then mark_file_changed st2 file
                                else st2)
                               (readidx + 1) writeidx))
                  else
                    (let dir = cq_dir entry;
                         st1 = st\<lparr>change_queue := (change_queue st)[readidx := entry\<lparr>cq_dir := None\<rparr>]\<rparr>
                     in (case ds_dir_scan n w st1 dir False of None \<Rightarrow> None
                         | Some (rc, st2) \<Rightarrow>
                             ds_change_queue_process_loop n w clock work_until st2
                               (readidx + 1) writeidx))))
      else Some (st, writeidx))"

text \<open>\<^verbatim>\<open>ds_change_queue_process(topdir, work_until)\<close>: the queue's length becomes the
  final \<open>writeidx\<close>.\<close>

definition ds_change_queue_process ::
  "nat \<Rightarrow> world \<Rightarrow> (nat \<Rightarrow> int) \<Rightarrow> watch_state \<Rightarrow> int \<Rightarrow> watch_state option" where
  "ds_change_queue_process n w clock st work_until =
     (if 0 \<ge> length (change_queue st) then Some st
      else (case ds_change_queue_process_loop n w clock work_until st 0 0 of
          None \<Rightarrow> None
        | Some (st1, writeidx) \<Rightarrow>
            Some (st1\<lparr>change_queue := take writeidx (change_queue st1)\<rparr>)))"

section \<open>Configuration sections (continual-sync.c, sync.h)\<close>

text \<open>The part of \<^verbatim>\<open>struct sync_set_s\<close> that the numeric keys live in: the name, the
  source and the destination, the five \<^verbatim>\<open>unsigned long\<close> members and, in the nested
  struct \<^verbatim>\<open>set\<close>, one flag for each that the parser sets when the key is written in
  the section.  The other string members take no part in how the numeric members are
  filled in and are left out.\<close>

record sync_set_s =
  name :: string
  source :: "string option"
  destination :: "string option"
  full_interval :: nat
  full_retry :: nat
  partial_interval :: nat
  partial_retry :: nat
  recursion_depth :: nat
  set_full_interval :: bool
  set_full_retry :: bool
  set_partial_interval :: bool
  set_partial_retry :: bool
  set_recursion_depth :: bool

definition DEFAULTS_SECTION :: string where
  "DEFAULTS_SECTION = ''defaults''"

text \<open>The five numeric keys, and the lines of a section that reach the members above,
  as the \<^verbatim>\<open>sscanf\<close> calls of \<^verbatim>\<open>cf_string\<close> and \<^verbatim>\<open>cf_ulong\<close> recognise them.\<close>

datatype numeric_key =
    FULL_INTERVAL
  | FULL_RETRY
  | PARTIAL_INTERVAL
  | PARTIAL_RETRY
  | RECURSION_DEPTH

datatype config_line =
    CF_SOURCE string
  | CF_DESTINATION string
  | CF_ULONG numeric_key nat

text \<open>A new section in \<^verbatim>\<open>parse_config\<close>: \<^verbatim>\<open>memset\<close> to zero, then the name and the
  built-in values.\<close>

definition new_section :: "string \<Rightarrow> sync_set_s" where
  "new_section param_str =
     \<lparr>name = param_str, source = None, destination = None,
      full_interval = 86400, full_retry = 3600,
      partial_interval = 30, partial_retry = 300,
      recursion_depth = 20,
      set_full_interval = False, set_full_retry = False,
      set_partial_interval = False, set_partial_retry = False,
      set_recursion_depth = False\<rparr>"

text \<open>The macro \<^verbatim>\<open>cf_ulong(X, Y)\<close> of \<^verbatim>\<open>parse_config\<close> once its \<^verbatim>\<open>sscanf\<close> has matched:
  \<^verbatim>\<open>section->Y = param_ulong; section->set.Y = 1\<close>.\<close>

fun cf_ulong :: "numeric_key \<Rightarrow> nat \<Rightarrow> sync_set_s \<Rightarrow> sync_set_s" where
  "cf_ulong FULL_INTERVAL param_ulong section =
     section\<lparr>full_interval := param_ulong, set_full_interval := True\<rparr>"
| "cf_ulong FULL_RETRY param_ulong section =
     section\<lparr>full_retry := param_ulong, set_full_retry := True\<rparr>"
| "cf_ulong PARTIAL_INTERVAL param_ulong section =
     section\<lparr>partial_interval := param_ulong, set_partial_interval := True\<rparr>"
| "cf_ulong PARTIAL_RETRY param_ulong section =
     section\<lparr>partial_retry := param_ulong, set_partial_retry := True\<rparr>"
| "cf_ulong RECURSION_DEPTH param_ulong section =
     section\<lparr>recursion_depth := param_ulong, set_recursion_depth := True\<rparr>"

text \<open>One line inside a section: \<^verbatim>\<open>cf_string\<close> for the source and the destination,
  \<^verbatim>\<open>cf_ulong\<close> for a numeric key.\<close>

fun parse_line :: "config_line \<Rightarrow> sync_set_s \<Rightarrow> sync_set_s" where
  "parse_line (CF_SOURCE param_str) section = section\<lparr>source := Some param_str\<rparr>"
| "parse_line (CF_DESTINATION param_str) section = section\<lparr>destination := Some param_str\<rparr>"
| "parse_line (CF_ULONG k param_ulong) section = cf_ulong k param_ulong section"

text \<open>A section as \<^verbatim>\<open>parse_config\<close> leaves it after its header and its lines, in file
  order.\<close>

definition parse_section :: "string \<Rightarrow> config_line list \<Rightarrow> sync_set_s" where
  "parse_section param_str section_lines = fold parse_line section_lines (new_section param_str)"

text \<open>The five \<^verbatim>\<open>copy_default_ulong(x)\<close> lines of \<^verbatim>\<open>validate_config_section\<close>: a member
  is copied from the defaults section when the section's own flag is 0 and the
  defaults section's flag is not.\<close>

definition copy_default_ulongs :: "sync_set_s \<Rightarrow> sync_set_s \<Rightarrow> sync_set_s" where
  "copy_default_ulongs defaults section =
     (let s1 = (if \<not> set_full_interval section \<and> set_full_interval defaults
                then section\<lparr>full_interval := full_interval defaults\<rparr> else section);
          s2 = (if \<not> set_full_retry s1 \<and> set_full_retry defaults
                then s1\<lparr>full_retry := full_retry defaults\<rparr> else s1);
          s3 = (if \<not> set_partial_interval s2 \<and> set_partial_interval defaults
                then s2\<lparr>partial_interval := partial_interval defaults\<rparr> else s2);
          s4 = (if \<not> set_partial_retry s3 \<and> set_partial_retry defaults
                then s3\<lparr>partial_retry := partial_retry defaults\<rparr> else s3);
          s5 = (if \<not> set_recursion_depth s4 \<and> set_recursion_depth defaults
                then s4\<lparr>recursion_depth := recursion_depth defaults\<rparr> else s4)
      in s5)"

text \<open>\<^verbatim>\<open>validate_config_section(idx, defaults_idx)\<close>: the return value and the section
  afterwards.  \<open>defaults\<close> is the section at \<open>defaults_idx\<close>, \<open>None\<close> for a negative
  index.  \<open>strings_ok\<close> says that the checks on the string members that are left out
  all pass: every \<^verbatim>\<open>expand_config_sequences\<close> call returns 0, and the change queue and
  the temporary directory, where given, are directories.  The defaults section itself
  returns before anything is filled in.\<close>

definition validate_config_section :: "bool \<Rightarrow> sync_set_s \<Rightarrow> sync_set_s option \<Rightarrow> int \<times> sync_set_s" where
  "validate_config_section strings_ok section defaults =
     (if name section = DEFAULTS_SECTION then
        ((if source section \<noteq> None then 1
          else if destination section \<noteq> None then 1 else 0), section)
      else
        (let rc1 = (if source section = None then 1
                    else if destination section = None then 1 else (0::int));
             s1 = (case defaults of None \<Rightarrow> section
                   | Some d \<Rightarrow> copy_default_ulongs d section);
             rc2 = (if \<not> strings_ok then 1 else rc1);
             rc3 = (if full_interval s1 = 0 \<and> partial_interval s1 = 0 then 1 else rc2)
         in (rc3, s1)))"

text \<open>Reading a numeric member by its key, and the last value the lines of a section
  write for a key.\<close>

fun ulong_member :: "numeric_key \<Rightarrow> sync_set_s \<Rightarrow> nat" where
  "ulong_member FULL_INTERVAL s = full_interval s"
| "ulong_member FULL_RETRY s = full_retry s"
| "ulong_member PARTIAL_INTERVAL s = partial_interval s"
| "ulong_member PARTIAL_RETRY s = partial_retry s"
| "ulong_member RECURSION_DEPTH s = recursion_depth s"

fun set_member :: "numeric_key \<Rightarrow> sync_set_s \<Rightarrow> bool" where
  "set_member FULL_INTERVAL s = set_full_interval s"
| "set_member FULL_RETRY s = set_full_retry s"
| "set_member PARTIAL_INTERVAL s = set_partial_interval s"
| "set_member PARTIAL_RETRY s = set_partial_retry s"
| "set_member RECURSION_DEPTH s = set_recursion_depth s"

fun ulong_lines :: "config_line list \<Rightarrow> (numeric_key \<times> nat) list" where
  "ulong_lines [] = []"
| "ulong_lines (CF_ULONG k v # ls) = (k, v) # ulong_lines ls"
| "ulong_lines (CF_SOURCE s # ls) = ulong_lines ls"
| "ulong_lines (CF_DESTINATION s # ls) = ulong_lines ls"

definition last_written :: "config_line list \<Rightarrow> numeric_key \<Rightarrow> nat option" where
  "last_written section_lines k = map_of (rev (ulong_lines section_lines)) k"

text \<open>Two sections of a configuration file: \<open>photos\<close> writes a zero full sync interval,
  the defaults section writes 100 for it.\<close>

definition example_photos_lines :: "config_line list" where
  "example_photos_lines =
     [CF_SOURCE ''/srv/photos'', CF_DESTINATION ''backup:/srv/photos'',
      CF_ULONG FULL_INTERVAL 0, CF_ULONG PARTIAL_RETRY 60]"

definition example_defaults_lines :: "config_line list" where
  "example_defaults_lines = [CF_ULONG FULL_INTERVAL 100, CF_ULONG FULL_RETRY 7]"

section \<open>Validation commands (sync.c)\<close>

text \<open>The wait status macros of \<^verbatim>\<open><sys/wait.h>\<close> (glibc) on the \<^verbatim>\<open>int\<close> that
  \<^verbatim>\<open>system()\<close> returns.\<close>

definition WTERMSIG :: "32 word \<Rightarrow> 32 word" where
  "WTERMSIG status = status AND 0x7f"

definition WEXITSTATUS :: "32 word \<Rightarrow> 32 word" where
  "WEXITSTATUS status = drop_bit 8 (status AND 0xff00)"

definition WIFEXITED :: "32 word \<Rightarrow> bool" where
  "WIFEXITED status = (WTERMSIG status = 0)"

definition WIFSIGNALED :: "32 word \<Rightarrow> bool" where
  "WIFSIGNALED status =
     (0 < sint (signed_drop_bit 1 (ucast ((status AND 0x7f) + 1) :: 8 word)))"

text \<open>What \<^verbatim>\<open>run_validation\<close> changes in the worker: the global \<^verbatim>\<open>sync_exit_now\<close> and
  \<^verbatim>\<open>st->action\<close>.  Writing the status file and the log changes neither.\<close>

record sync_worker =
  sync_exit_now :: bool
  action :: string

text \<open>\<^verbatim>\<open>run_validation(cf, command, name, st, action)\<close>; \<open>system\<close> is the C library's
  \<^verbatim>\<open>system()\<close>.\<close>

definition run_validation ::
  "(string \<Rightarrow> 32 word) \<Rightarrow> sync_worker \<Rightarrow> string option \<Rightarrow> string \<Rightarrow> int \<times> sync_worker" where
  "run_validation system st command act =
     (case command of None \<Rightarrow> (0, st)
      | Some cmd \<Rightarrow>
         (let st1 = st\<lparr>action := act\<rparr>;
              ret = system cmd
          in if WIFSIGNALED ret then (1, st1\<lparr>sync_exit_now := True\<rparr>)
             else if WEXITSTATUS ret = 0 then (0, st1)
             else (1, st1)))"

section \<open>Command line of the standalone watcher (watchdir.c)\<close>

definition MAX_EXCLUDES :: nat where
  "MAX_EXCLUDES = 1000"

text \<open>What \<^verbatim>\<open>getopt_long\<close> returns for one option of the command line, with
  \<^verbatim>\<open>optarg\<close> where the option takes an argument; \<open>OPT_unknown\<close> is any return value the
  \<^verbatim>\<open>switch\<close> sends to \<^verbatim>\<open>default\<close>.\<close>

datatype getopt_result =
    OPT_h
  | OPT_V
  | OPT_d
  | OPT_e string
  | OPT_f string
  | OPT_r string
  | OPT_q string
  | OPT_m string
  | OPT_i string
  | OPT_unknown

text \<open>The file-scope variables that the options set.  \<open>cli_excludes\<close> is the array
  \<^verbatim>\<open>excludes[MAX_EXCLUDES]\<close> up to \<^verbatim>\<open>exclude_count\<close>.\<close>

record watchdir_options =
  full_scan_interval :: nat
  queue_run_interval :: nat
  queue_run_max_seconds :: nat
  changedpath_dump_interval :: nat
  max_dir_depth :: nat
  cli_excludes :: "string list"
  debugging_enabled :: bool

definition initial_options :: watchdir_options where
  "initial_options =
     \<lparr>full_scan_interval = 7200, queue_run_interval = 2, queue_run_max_seconds = 5,
      changedpath_dump_interval = 30, max_dir_depth = 20, cli_excludes = [],
      debugging_enabled = False\<rparr>"

text \<open>The \<^verbatim>\<open>do ... while (c != -1)\<close> loop of \<^verbatim>\<open>parse_options\<close> over what \<^verbatim>\<open>getopt_long\<close>
  returns before -1.  The result is \<open>Some rc\<close> where the loop returns \<open>rc\<close> from
  \<^verbatim>\<open>parse_options\<close> and \<open>None\<close> where it runs to its end, with the variables as they
  are then.  \<open>strtoul\<close> is
  the C library's, \<open>None\<close> where it sets \<^verbatim>\<open>errno\<close>; \<^verbatim>\<open>max_dir_depth\<close> is an
  \<^verbatim>\<open>unsigned int\<close>.\<close>

fun parse_options_loop ::
  "(string \<Rightarrow> nat option) \<Rightarrow> getopt_result list \<Rightarrow> watchdir_options \<Rightarrow> int option \<times> watchdir_options" where
  "parse_options_loop strtoul [] v = (None, v)"
| "parse_options_loop strtoul (OPT_h # cs) v = (Some (-1), v)"
| "parse_options_loop strtoul (OPT_V # cs) v = (Some (-1), v)"
| "parse_options_loop strtoul (OPT_d # cs) v =
     parse_options_loop strtoul cs (v\<lparr>debugging_enabled := True\<rparr>)"
| "parse_options_loop strtoul (OPT_e optarg # cs) v =
     (if length (cli_excludes v) \<ge> MAX_EXCLUDES - 1 then (Some 1, v)
      else parse_options_loop strtoul cs (v\<lparr>cli_excludes := cli_excludes v @ [optarg]\<rparr>))"
| "parse_options_loop strtoul (OPT_f optarg # cs) v =
     (case strtoul optarg of None \<Rightarrow> (Some 1, v)
      | Some param \<Rightarrow> parse_options_loop strtoul cs (v\<lparr>full_scan_interval := param\<rparr>))"
| "parse_options_loop strtoul (OPT_r optarg # cs) v =
     (case strtoul optarg of None \<Rightarrow> (Some 1, v)
      | Some param \<Rightarrow> parse_options_loop strtoul cs (v\<lparr>max_dir_depth := param mod 2 ^ 32\<rparr>))"
| "parse_options_loop strtoul (OPT_q optarg # cs) v =
     (case strtoul optarg of None \<Rightarrow> (Some 1, v)
      | Some param \<Rightarrow> parse_options_loop strtoul cs (v\<lparr>queue_run_interval := param\<rparr>))"
| "parse_options_loop strtoul (OPT_m optarg # cs) v =
     (case strtoul optarg of None \<Rightarrow> (Some 1, v)
      | Some param \<Rightarrow> parse_options_loop strtoul cs (v\<lparr>queue_run_max_seconds := param\<rparr>))"
| "parse_options_loop strtoul (OPT_i optarg # cs) v =
     (case strtoul optarg of None \<Rightarrow> (Some 1, v)
      | Some param \<Rightarrow> parse_options_loop strtoul cs (v\<lparr>changedpath_dump_interval := param\<rparr>))"
| "parse_options_loop strtoul (OPT_unknown # cs) v = (Some 1, v)"

text \<open>\<^verbatim>\<open>parse_options(argc, argv)\<close>: 0 on success, -1 to exit without an error, 1 to
  exit with an error.  \<open>cs\<close> is the options as \<^verbatim>\<open>getopt_long\<close> returns them and
  \<open>parameters\<close> the arguments left after them.\<close>

definition parse_options ::
  "(string \<Rightarrow> nat option) \<Rightarrow> getopt_result list \<Rightarrow> string list \<Rightarrow> watchdir_options \<Rightarrow> int \<times> watchdir_options" where
  "parse_options strtoul cs parameters v =
     (case parse_options_loop strtoul cs v of
        (Some rc, v1) \<Rightarrow> (rc, v1)
      | (None, v1) \<Rightarrow> if length parameters \<noteq> 2 then (1, v1) else (0, v1))"

text \<open>An option that cannot make \<^verbatim>\<open>parse_options\<close> return by itself: the debug flag, or
  a numeric option whose argument \<^verbatim>\<open>strtoul\<close> converts.\<close>

fun plain_option :: "(string \<Rightarrow> nat option) \<Rightarrow> getopt_result \<Rightarrow> bool" where
  "plain_option strtoul OPT_d = True"
| "plain_option strtoul (OPT_e optarg) = True"
| "plain_option strtoul (OPT_f optarg) = (strtoul optarg \<noteq> None)"
| "plain_option strtoul (OPT_r optarg) = (strtoul optarg \<noteq> None)"
| "plain_option strtoul (OPT_q optarg) = (strtoul optarg \<noteq> None)"
| "plain_option strtoul (OPT_m optarg) = (strtoul optarg \<noteq> None)"
| "plain_option strtoul (OPT_i optarg) = (strtoul optarg \<noteq> None)"
| "plain_option strtoul c = False"

fun is_exclude :: "getopt_result \<Rightarrow> bool" where
  "is_exclude (OPT_e optarg) = True"
| "is_exclude c = False"

section \<open>Well-formed directories\<close>

text \<open>Two facts the watcher maintains for a directory \<open>d\<close> and that the loops over
  \<open>dir->files\<close> rely on: every entry of the array is a live file node whose \<open>parent\<close> is
  \<open>d\<close>, and no two entries have the same leafname (\<^verbatim>\<open>ds_file_add\<close> returns the existing
  node for a name it already has).\<close>

definition dir_files_owned :: "watch_state \<Rightarrow> nat \<Rightarrow> bool" where
  "dir_files_owned st d =
     (case dirs st d of None \<Rightarrow> False
      | Some dr \<Rightarrow> list_all (\<lambda>p. case files st p of None \<Rightarrow> False
                                  | Some f \<Rightarrow> f_parent f = Some d) (d_files dr))"

definition file_leaf :: "watch_state \<Rightarrow> nat \<Rightarrow> string option" where
  "file_leaf st p = map_option f_leaf (files st p)"

definition dir_leaves_distinct :: "watch_state \<Rightarrow> nat \<Rightarrow> bool" where
  "dir_leaves_distinct st d =
     (case dirs st d of None \<Rightarrow> False
      | Some dr \<Rightarrow> distinct (map (file_leaf st) (d_files dr)))"



text \<open>What holds of every state the watcher builds from \<^verbatim>\<open>ds_dir_toplevel\<close> with
  \<^verbatim>\<open>ds_file_add\<close>, \<^verbatim>\<open>ds_dir_add\<close> and the remove functions.  Nodes are allocated at
  addresses not in use (\<open>heap_fresh\<close>); an entry of a directory's \<open>subdirs\<close> array is a
  live directory whose \<open>parent\<close> is that directory and whose \<open>depth\<close> is one more
  (\<open>dir_subdirs_owned\<close>), and no entry is there twice, since \<^verbatim>\<open>ds_dir_add\<close> appends
  only a node it has just allocated; and no directory is deeper than
  \<^verbatim>\<open>max_directory_depth\<close>, since \<^verbatim>\<open>ds_dir_add\<close> refuses to add below a directory at
  the limit.\<close>

definition heap_fresh :: "watch_state \<Rightarrow> bool" where
  "heap_fresh st =
     ((\<forall>p f. files st p = Some f \<longrightarrow> p < next_addr st)
      \<and> (\<forall>q g. dirs st q = Some g \<longrightarrow> q < next_addr st))"

definition dir_subdirs_owned :: "watch_state \<Rightarrow> nat \<Rightarrow> bool" where
  "dir_subdirs_owned st d =
     (case dirs st d of None \<Rightarrow> False
      | Some dr \<Rightarrow> list_all (\<lambda>q. case dirs st q of None \<Rightarrow> False
                                  | Some g \<Rightarrow> d_parent g = Some d \<and> d_depth g = Suc (d_depth dr))
                      (d_subdirs dr))"

definition watch_tree :: "watch_state \<Rightarrow> bool" where
  "watch_tree st =
     (heap_fresh st
      \<and> (\<forall>d dr. dirs st d = Some dr \<longrightarrow>
            dir_files_owned st d \<and> dir_leaves_distinct st d \<and> dir_subdirs_owned st d
            \<and> distinct (d_subdirs dr) \<and> d_depth dr \<le> max_directory_depth st))"



text \<open>What a scan of a directory at depth \<open>j\<close> leaves alone: a directory above that
  depth is as it was, except that entries may have gone from its \<open>subdirs\<close> array, and
  a file of such a directory is as it was.\<close>

definition frame_above :: "nat \<Rightarrow> watch_state \<Rightarrow> watch_state \<Rightarrow> bool" where
  "frame_above j st st' =
     ((\<forall>y yr. dirs st y = Some yr \<and> d_depth yr < j \<longrightarrow>
         (\<exists>P. dirs st' y = Some (yr\<lparr>d_subdirs := filter P (d_subdirs yr)\<rparr>)))
      \<and> (\<forall>p f y yr. files st p = Some f \<and> f_parent f = Some y \<and> dirs st y = Some yr
            \<and> d_depth yr < j \<longrightarrow> files st' p = Some f)
      \<and> max_directory_depth st' = max_directory_depth st)"


text \<open>What a step of \<^verbatim>\<open>ds_dir_scan(x)\<close> that frees no file of \<open>x\<close> keeps: the state is
  well-formed, \<open>x\<close> is there at its depth, the directories above it and their files
  are left alone, and every file of \<open>x\<close> is still in its array, at its path.\<close>

definition dir_step :: "nat \<Rightarrow> watch_state \<Rightarrow> watch_state \<Rightarrow> bool" where
  "dir_step x st st' =
     (watch_tree st'
      \<and> (\<exists>xr xr'. dirs st x = Some xr \<and> dirs st' x = Some xr' \<and> d_depth xr' = d_depth xr
            \<and> frame_above (d_depth xr) st st'
            \<and> set (d_files xr) \<subseteq> set (d_files xr')
            \<and> (\<forall>p\<in>set (d_files xr). \<forall>f. files st p = Some f \<longrightarrow>
                  (\<exists>f'. files st' p = Some f' \<and> f_absolute_path f' = f_absolute_path f))))"


section \<open>The queue property of the specification\<close>

text \<open>"The change queue never holds two active entries targeting the same node": no
  file pointer and no directory pointer occurs in two slots.\<close>

definition change_queue_unique :: "ds_change_queue_s list \<Rightarrow> bool" where
  "change_queue_unique q =
     (distinct (List.map_filter cq_file q) \<and> distinct (List.map_filter cq_dir q))"

section \<open>Concrete inputs\<close>

text \<open>A watched tree \<open>/top\<close> holding one regular file \<open>a.txt\<close>, which the watcher has
  recorded with 5 bytes and which now has 8 bytes and a later modification time; the
  directory also holds \<open>gone.txt\<close> in the watcher's memory, which no longer exists.\<close>

definition example_world :: world where
  "example_world =
     \<lparr>lstat = (\<lambda>p. if p = ''/top'' then Some \<lparr>st_mode = S_IFDIR, st_dev = 1, st_mtime = 1700000000, st_size = 4096\<rparr>
                   else if p = ''/top/a.txt'' then Some \<lparr>st_mode = S_IFREG, st_dev = 1, st_mtime = 1700000000, st_size = 8\<rparr>
                   else None),
      scandir = (\<lambda>p. if p = ''/top'' then Some [''a.txt''] else None),
      inotify_add_watch = (\<lambda>p. 1),
      fnmatch = (\<lambda>pat nm. 1)\<rparr>"

definition example_topdir :: ds_dir_s where
  "example_topdir =
     \<lparr>d_absolute_path = ''/top'', d_path = [], d_leaf = [], d_wd = -1, d_depth = 0,
      d_files = [2, 3], d_subdirs = [], d_parent = None, d_seen_in_rescan = False\<rparr>"

definition example_file :: ds_file_s where
  "example_file =
     \<lparr>f_absolute_path = ''/top/a.txt'', f_path = ''a.txt'', f_leaf = ''a.txt'',
      f_mtime = 1600000000, f_size = 5, f_parent = Some 1, f_seen_in_rescan = False\<rparr>"

definition example_gone :: ds_file_s where
  "example_gone =
     \<lparr>f_absolute_path = ''/top/gone.txt'', f_path = ''gone.txt'', f_leaf = ''gone.txt'',
      f_mtime = 1600000000, f_size = 7, f_parent = Some 1, f_seen_in_rescan = False\<rparr>"

definition example_state :: watch_state where
  "example_state =
     \<lparr>files = [2 \<mapsto> example_file, 3 \<mapsto> example_gone], dirs = [1 \<mapsto> example_topdir],
      next_addr = 4, topdir = 1, fd_inotify = 3, watch_index = [],
      change_queue = [], changed_paths = [],
      max_directory_depth = 20, excludes = []\<rparr>"

text \<open>Queue entries for the two files: one due at time 10, two due at time 100, and a
  tombstone.\<close>

definition entry_due :: ds_change_queue_s where
  "entry_due = \<lparr>cq_when = 10, cq_file = Some 2, cq_dir = None\<rparr>"

definition entry_later :: ds_change_queue_s where
  "entry_later = \<lparr>cq_when = 100, cq_file = Some 2, cq_dir = None\<rparr>"

definition entry_later_b :: ds_change_queue_s where
  "entry_later_b = \<lparr>cq_when = 100, cq_file = Some 3, cq_dir = None\<rparr>"

definition entry_tombstone :: ds_change_queue_s where
  "entry_tombstone = \<lparr>cq_when = 10, cq_file = None, cq_dir = None\<rparr>"

text \<open>A successful dump, and the wait statuses of three validation commands: exit
  status 0, exit status 1, and killed by signal 9.\<close>

definition example_dump_env :: dump_env where
  "example_dump_env =
     \<lparr>savefile = ''/var/spool/changes/20240102-030405.4711'',
      mkstemp_ok = True, fdopen_ok = True, rename_ok = True\<rparr>"

definition example_system :: "string \<Rightarrow> 32 word" where
  "example_system cmd =
     (if cmd = ''true'' then 0x0000
      else if cmd = ''false'' then 0x0100
      else 0x0009)"

definition example_worker :: sync_worker where
  "example_worker = \<lparr>sync_exit_now = False, action = ''waiting''\<rparr>"

text \<open>The same tree before the watcher knows \<open>a.txt\<close>, and the event the kernel sends
  when the file is created.\<close>

definition example_state_new :: watch_state where
  "example_state_new =
     \<lparr>files = [3 \<mapsto> example_gone], dirs = [1 \<mapsto> example_topdir\<lparr>d_files := [3]\<rparr>],
      next_addr = 4, topdir = 1, fd_inotify = 3, watch_index = [],
      change_queue = [], changed_paths = [],
      max_directory_depth = 20, excludes = []\<rparr>"

definition example_event :: inotify_event where
  "example_event = \<lparr>ev_wd = 1, ev_mask = IN_CREATE, ev_name = ''a.txt''\<rparr>"

section \<open>Theorems\<close>

text \<open>C5 (the code's behaviour at the failing input).  With no excludes configured the
  name \<open>.tmp\<close>, whose final four characters are \<open>.tmp\<close>, passes the filter: the test
  in the source is \<^verbatim>\<open>namelen > 4\<close>, so a name has to be longer than the suffix to be
  rejected, while the function's own comment says "ignore anything ending in .tmp".\<close>

theorem ds_filename_valid_accepts_dot_tmp:
  "ds_filename_valid fnm [] ''.tmp'' = 1"
  by (simp add: ds_filename_valid_def)

subsection \<open>File change detection\<close>

lemma ds_file_checkchanged_changed:
  assumes "ds_file_checkchanged w st file = (1, st')"
  obtains p f sb where "file = Some p" "files st p = Some f"
    "lstat w (f_absolute_path f) = Some sb" "st_mode sb = S_IFREG"
    "st' = st\<lparr>files := (files st)(p \<mapsto> f\<lparr>f_mtime := st_mtime sb, f_size := st_size sb\<rparr>)\<rparr>"
proof (cases "file")
  case None
  with assms show ?thesis by (simp add: ds_file_checkchanged_def)
next
  case (Some p)
  show ?thesis
  proof (cases "files st p")
    case None
    with Some assms show ?thesis by (simp add: ds_file_checkchanged_def)
  next
    case (Some f) note f = this
    show ?thesis
    proof (cases "lstat w (f_absolute_path f)")
      case None
      with f \<open>file = Some p\<close> assms show ?thesis by (simp add: ds_file_checkchanged_def)
    next
      case (Some sb)
      with f \<open>file = Some p\<close> assms that show ?thesis
        by (simp add: ds_file_checkchanged_def split: if_splits)
    qed
  qed
qed

text \<open>C10.  Whenever \<^verbatim>\<open>ds_file_checkchanged\<close> returns 1, the node's stored \<open>mtime\<close> and
  \<open>size\<close> are afterwards the values \<^verbatim>\<open>lstat\<close> has just reported for a regular file, and
  calling it again at once on the resulting state, with the filesystem unchanged,
  returns 0 and changes nothing.  So one modification is reported by one call only,
  the first to observe it, whatever that caller does with the result.\<close>

theorem ds_file_checkchanged_reports_once:
  assumes "ds_file_checkchanged w st file = (1, st')"
  shows "(\<exists>p f sb. file = Some p \<and> files st' p = Some f
            \<and> lstat w (f_absolute_path f) = Some sb \<and> st_mode sb = S_IFREG
            \<and> f_mtime f = st_mtime sb \<and> f_size f = st_size sb)
         \<and> ds_file_checkchanged w st' file = (0, st')"
proof -
  from assms obtain p f sb where *: "file = Some p" "files st p = Some f"
    "lstat w (f_absolute_path f) = Some sb" "st_mode sb = S_IFREG"
    "st' = st\<lparr>files := (files st)(p \<mapsto> f\<lparr>f_mtime := st_mtime sb, f_size := st_size sb\<rparr>)\<rparr>"
    by (rule ds_file_checkchanged_changed)
  have 1: "files st' p = Some (f\<lparr>f_mtime := st_mtime sb, f_size := st_size sb\<rparr>)"
    using * by simp
  have 2: "ds_file_checkchanged w st' file = (0, st')"
    using 1 * by (simp add: ds_file_checkchanged_def)
  from 1 2 * show ?thesis by simp
qed

theorem ds_file_checkchanged_reports_once_witness:
  "fst (ds_file_checkchanged example_world example_state (Some 2)) = 1
   \<and> map_option f_size (files (snd (ds_file_checkchanged example_world example_state (Some 2))) 2) = Some 8
   \<and> fst (ds_file_checkchanged example_world
            (snd (ds_file_checkchanged example_world example_state (Some 2))) (Some 2)) = 0"
proof -
  have h: "ds_file_checkchanged example_world example_state (Some 2)
             = (1, snd (ds_file_checkchanged example_world example_state (Some 2)))"
    by (simp add: ds_file_checkchanged_def example_world_def example_state_def example_file_def)
  have s: "map_option f_size (files (snd (ds_file_checkchanged example_world example_state (Some 2))) 2) = Some 8"
    by (simp add: ds_file_checkchanged_def example_world_def example_state_def example_file_def)
  have r: "fst (ds_file_checkchanged example_world example_state (Some 2)) = 1"
    by (subst h) simp
  from ds_file_checkchanged_reports_once [OF h] r s show ?thesis by simp
qed

subsection \<open>Dumping the changed paths\<close>

text \<open>C8.  When \<^verbatim>\<open>dump_changed_paths\<close> has written the batch file and renamed it into
  place, the file holds the pending paths and the in-memory list is empty, so that a
  dump following at once writes no file whatever it meets outside; and a dump with no
  paths pending writes no file and changes nothing.\<close>

theorem dump_changed_paths_empties:
  "(dump_changed_paths env st = (DUMP_WRITTEN fname ls, st') \<longrightarrow>
      changed_paths st' = [] \<and> ls = changed_paths st
      \<and> (\<forall>env'. dump_changed_paths env' st' = (DUMP_SKIPPED, st')))
   \<and> (changed_paths st = [] \<longrightarrow> dump_changed_paths env st = (DUMP_SKIPPED, st))"
  by (auto simp: dump_changed_paths_def split: if_splits)

theorem dump_changed_paths_empties_witness:
  "dump_changed_paths example_dump_env (mark_path_changed example_state ''a.txt'' False)
     = (DUMP_WRITTEN ''/var/spool/changes/20240102-030405.4711'' [''a.txt''], example_state)
   \<and> dump_changed_paths example_dump_env example_state = (DUMP_SKIPPED, example_state)"
proof -
  have h: "dump_changed_paths example_dump_env (mark_path_changed example_state ''a.txt'' False)
             = (DUMP_WRITTEN ''/var/spool/changes/20240102-030405.4711'' [''a.txt''], example_state)"
    by (simp add: dump_changed_paths_def mark_path_changed_def example_dump_env_def example_state_def)
  from dump_changed_paths_empties [of example_dump_env
      "mark_path_changed example_state ''a.txt'' False"
      "''/var/spool/changes/20240102-030405.4711''" "[''a.txt'']" example_state] h
  show ?thesis by blast
qed

subsection \<open>Validation commands\<close>

lemma WIFEXITED_not_WIFSIGNALED: "WIFEXITED status \<Longrightarrow> \<not> WIFSIGNALED status"
  by (simp add: WIFEXITED_def WIFSIGNALED_def WTERMSIG_def)

text \<open>C7.  \<^verbatim>\<open>run_validation\<close> returns 0 when no command is configured (and then changes
  nothing) or when the command exits with status 0; it returns nonzero when the
  command exits with another status; and when the command is ended by a signal it sets
  \<^verbatim>\<open>sync_exit_now\<close> and returns nonzero.\<close>

theorem run_validation_result:
  "(command = None \<longrightarrow> run_validation system st command act = (0, st)) \<and>
   (command = Some cmd \<and> WIFEXITED (system cmd) \<and> WEXITSTATUS (system cmd) = 0 \<longrightarrow>
      fst (run_validation system st command act) = 0 \<and>
      sync_exit_now (snd (run_validation system st command act)) = sync_exit_now st) \<and>
   (command = Some cmd \<and> WIFEXITED (system cmd) \<and> WEXITSTATUS (system cmd) \<noteq> 0 \<longrightarrow>
      fst (run_validation system st command act) \<noteq> 0) \<and>
   (command = Some cmd \<and> WIFSIGNALED (system cmd) \<longrightarrow>
      fst (run_validation system st command act) \<noteq> 0 \<and>
      sync_exit_now (snd (run_validation system st command act)))"
  by (auto simp: run_validation_def Let_def WIFEXITED_not_WIFSIGNALED)

theorem run_validation_result_witness:
  "run_validation example_system example_worker None ''validating-source'' = (0, example_worker)
   \<and> fst (run_validation example_system example_worker (Some ''true'') ''validating-source'') = 0
   \<and> fst (run_validation example_system example_worker (Some ''false'') ''validating-source'') \<noteq> 0
   \<and> fst (run_validation example_system example_worker (Some ''kill -9 $$'') ''validating-source'') \<noteq> 0
   \<and> sync_exit_now (snd (run_validation example_system example_worker (Some ''kill -9 $$'') ''validating-source''))"
proof -
  have a: "WIFEXITED (example_system ''true'') \<and> WEXITSTATUS (example_system ''true'') = 0"
    by (simp add: example_system_def WIFEXITED_def WEXITSTATUS_def WTERMSIG_def)
  have b: "WIFEXITED (example_system ''false'') \<and> WEXITSTATUS (example_system ''false'') \<noteq> 0"
    by (simp add: example_system_def WIFEXITED_def WEXITSTATUS_def WTERMSIG_def)
  have c: "WIFSIGNALED (example_system ''kill -9 $$'')"
    by (simp add: example_system_def WIFSIGNALED_def)
  from run_validation_result [where command = None and system = example_system
        and st = example_worker and act = "''validating-source''"]
    run_validation_result [where command = "Some ''true''" and cmd = "''true''"
        and system = example_system and st = example_worker and act = "''validating-source''"]
    run_validation_result [where command = "Some ''false''" and cmd = "''false''"
        and system = example_system and st = example_worker and act = "''validating-source''"]
    run_validation_result [where command = "Some ''kill -9 $$''" and cmd = "''kill -9 $$''"
        and system = example_system and st = example_worker and act = "''validating-source''"]
    a b c
  show ?thesis by simp
qed

subsection \<open>Numeric keys of a configuration section\<close>

lemma ulong_lines_Cons: "ulong_lines (a # ls) = ulong_lines [a] @ ulong_lines ls"
  by (cases a) simp_all

lemma set_member_cf_ulong:
  "set_member k (cf_ulong k' v s) = (set_member k s \<or> k = k')"
  by (cases k; cases k'; simp)

lemma set_member_parse_line:
  "set_member k (parse_line a s) = (set_member k s \<or> k \<in> fst ` set (ulong_lines [a]))"
proof (cases a)
  case (CF_SOURCE x) then show ?thesis by (cases k) simp_all
next
  case (CF_DESTINATION x) then show ?thesis by (cases k) simp_all
next
  case (CF_ULONG k' v) then show ?thesis by (simp add: set_member_cf_ulong)
qed

lemma set_member_fold:
  "set_member k (fold parse_line ls s) = (set_member k s \<or> k \<in> fst ` set (ulong_lines ls))"
proof (induction ls arbitrary: s)
  case Nil then show ?case by simp
next
  case (Cons a ls)
  have "set_member k (fold parse_line (a # ls) s) = set_member k (fold parse_line ls (parse_line a s))"
    by simp
  also have "\<dots> = (set_member k (parse_line a s) \<or> k \<in> fst ` set (ulong_lines ls))"
    by (rule Cons.IH)
  also have "\<dots> = ((set_member k s \<or> k \<in> fst ` set (ulong_lines [a])) \<or> k \<in> fst ` set (ulong_lines ls))"
    by (simp only: set_member_parse_line)
  also have "\<dots> = (set_member k s \<or> k \<in> fst ` set (ulong_lines (a # ls)))"
    by (subst (2) ulong_lines_Cons) (simp only: set_append image_Un Un_iff disj_assoc)
  finally show ?case .
qed

lemma ulong_member_cf_ulong:
  "ulong_member k (cf_ulong k' v s) = (if k = k' then v else ulong_member k s)"
  by (cases k; cases k'; simp)

lemma ulong_member_parse_line:
  "ulong_member k (parse_line a s) =
     (case map_of (ulong_lines [a]) k of Some v \<Rightarrow> v | None \<Rightarrow> ulong_member k s)"
proof (cases a)
  case (CF_SOURCE x) then show ?thesis by (cases k) simp_all
next
  case (CF_DESTINATION x) then show ?thesis by (cases k) simp_all
next
  case (CF_ULONG k' v) then show ?thesis by (simp add: ulong_member_cf_ulong)
qed

lemma ulong_member_fold:
  "ulong_member k (fold parse_line ls s) =
     (case map_of (rev (ulong_lines ls)) k of Some v \<Rightarrow> v | None \<Rightarrow> ulong_member k s)"
proof (induction ls arbitrary: s)
  case Nil then show ?case by simp
next
  case (Cons a ls)
  have r: "map_of (rev (ulong_lines (a # ls))) k =
      (case map_of (rev (ulong_lines ls)) k of Some v \<Rightarrow> Some v | None \<Rightarrow> map_of (ulong_lines [a]) k)"
  proof -
    have "rev (ulong_lines [a]) = ulong_lines [a]" by (cases a) simp_all
    then show ?thesis
      by (subst ulong_lines_Cons) (simp add: map_add_def split: option.splits)
  qed
  have "ulong_member k (fold parse_line (a # ls) s) = ulong_member k (fold parse_line ls (parse_line a s))"
    by simp
  also have "\<dots> = (case map_of (rev (ulong_lines ls)) k of Some v \<Rightarrow> v
                      | None \<Rightarrow> ulong_member k (parse_line a s))"
    by (rule Cons.IH)
  also have "\<dots> = (case map_of (rev (ulong_lines (a # ls))) k of Some v \<Rightarrow> v | None \<Rightarrow> ulong_member k s)"
    by (simp only: r ulong_member_parse_line split: option.splits) simp
  finally show ?case .
qed

lemma name_parse_line: "name (parse_line a s) = name s"
proof (cases a)
  case (CF_ULONG k' v) then show ?thesis by (cases k') simp_all
qed simp_all

lemma name_fold: "name (fold parse_line ls s) = name s"
  by (induction ls arbitrary: s) (simp_all add: name_parse_line)

lemma name_parse_section: "name (parse_section n ls) = n"
  by (simp add: parse_section_def name_fold new_section_def)

lemma set_member_parse_section:
  "set_member k (parse_section n ls) = (last_written ls k \<noteq> None)"
  by (cases k; simp add: parse_section_def last_written_def set_member_fold new_section_def
      map_of_eq_None_iff)

lemma ulong_member_parse_section:
  "ulong_member k (parse_section n ls) =
     (case last_written ls k of Some v \<Rightarrow> v | None \<Rightarrow> ulong_member k (new_section n))"
  by (simp add: parse_section_def last_written_def ulong_member_fold)

lemma ulong_member_copy_default_ulongs:
  "ulong_member k (copy_default_ulongs d s) =
     (if \<not> set_member k s \<and> set_member k d then ulong_member k d else ulong_member k s)"
  by (cases k; simp add: copy_default_ulongs_def Let_def)

lemma ulong_member_new_section:
  "ulong_member k (new_section n) = ulong_member k (new_section m)"
  by (cases k; simp add: new_section_def)

lemma snd_validate_config_section:
  "name s \<noteq> DEFAULTS_SECTION \<Longrightarrow>
     snd (validate_config_section ok s (Some d)) = copy_default_ulongs d s"
  by (simp add: validate_config_section_def Let_def)

text \<open>C6, as amended.  For a section other than the defaults section, validated
  against a defaults section, and for each of the five numeric keys: a key that is
  written in the section keeps the value written last, whether that value is zero or
  not; a key that is not written in the section has the value the defaults section
  holds for it.  What decides is whether the key was written (the \<^verbatim>\<open>set\<close> flag), not
  whether its value is zero.\<close>

theorem numeric_key_written_or_default:
  assumes "n \<noteq> DEFAULTS_SECTION"
  shows "ulong_member k (snd (validate_config_section ok (parse_section n ls)
                                (Some (parse_section DEFAULTS_SECTION ld))))
          = (case last_written ls k of
               Some v \<Rightarrow> v
             | None \<Rightarrow> ulong_member k (parse_section DEFAULTS_SECTION ld))"
proof (cases "last_written ls k")
  case None
  then show ?thesis using assms
    by (simp add: snd_validate_config_section name_parse_section ulong_member_copy_default_ulongs
        set_member_parse_section ulong_member_parse_section
        ulong_member_new_section[of k n DEFAULTS_SECTION] split: option.splits)
next
  case (Some v)
  then show ?thesis using assms
    by (simp add: snd_validate_config_section name_parse_section ulong_member_copy_default_ulongs
        set_member_parse_section ulong_member_parse_section)
qed

theorem numeric_key_written_or_default_witness:
  "ulong_member FULL_INTERVAL (snd (validate_config_section True
       (parse_section ''photos'' example_photos_lines)
       (Some (parse_section DEFAULTS_SECTION example_defaults_lines)))) = 0
   \<and> ulong_member PARTIAL_RETRY (snd (validate_config_section True
       (parse_section ''photos'' example_photos_lines)
       (Some (parse_section DEFAULTS_SECTION example_defaults_lines)))) = 60
   \<and> ulong_member FULL_RETRY (snd (validate_config_section True
       (parse_section ''photos'' example_photos_lines)
       (Some (parse_section DEFAULTS_SECTION example_defaults_lines)))) = 7"
proof -
  have n: "''photos'' \<noteq> DEFAULTS_SECTION"
    by (simp add: DEFAULTS_SECTION_def)
  have d: "ulong_member FULL_RETRY (parse_section DEFAULTS_SECTION example_defaults_lines) = 7"
    by (simp add: parse_section_def new_section_def example_defaults_lines_def)
  have l: "last_written example_photos_lines FULL_INTERVAL = Some 0"
    "last_written example_photos_lines PARTIAL_RETRY = Some 60"
    "last_written example_photos_lines FULL_RETRY = None"
    by (simp_all add: last_written_def example_photos_lines_def)
  from numeric_key_written_or_default [OF n, of FULL_INTERVAL True example_photos_lines example_defaults_lines]
    numeric_key_written_or_default [OF n, of PARTIAL_RETRY True example_photos_lines example_defaults_lines]
    numeric_key_written_or_default [OF n, of FULL_RETRY True example_photos_lines example_defaults_lines]
    d l
  show ?thesis by simp
qed

text \<open>C6 as stated fails: both sections validate (return value 0), the section
  \<open>photos\<close> has a zero full sync interval before validation and the defaults section
  holds 100 for the key, and after validation the interval of \<open>photos\<close> is still
  zero.\<close>

theorem zero_written_not_inherited:
  "fst (validate_config_section True (parse_section DEFAULTS_SECTION example_defaults_lines) None) = 0
   \<and> full_interval (parse_section DEFAULTS_SECTION example_defaults_lines) = 100
   \<and> full_interval (parse_section ''photos'' example_photos_lines) = 0
   \<and> fst (validate_config_section True (parse_section ''photos'' example_photos_lines)
        (Some (parse_section DEFAULTS_SECTION example_defaults_lines))) = 0
   \<and> full_interval (snd (validate_config_section True (parse_section ''photos'' example_photos_lines)
        (Some (parse_section DEFAULTS_SECTION example_defaults_lines)))) = 0"
  by (simp add: validate_config_section_def parse_section_def new_section_def
      DEFAULTS_SECTION_def copy_default_ulongs_def example_photos_lines_def
      example_defaults_lines_def)

subsection \<open>The limit on exclude options\<close>

lemma all_set_replicate: "(\<forall>c\<in>set (replicate n x). P c) = (n = 0 \<or> P x)"
  by auto

lemma parse_options_loop_excludes:
  "\<forall>c \<in> set cs. plain_option strtoul c \<Longrightarrow> length (cli_excludes v) \<le> 999 \<Longrightarrow>
   fst (parse_options_loop strtoul cs v) =
     (if length (cli_excludes v) + length (filter is_exclude cs) \<le> 999 then None else Some 1)"
proof (induction cs arbitrary: v)
  case Nil
  then show ?case by simp
next
  case (Cons c cs)
  then show ?case
    by (cases c) (auto simp: MAX_EXCLUDES_def split: option.splits)
qed

lemma parse_options_excludes:
  assumes "\<forall>c \<in> set cs. plain_option strtoul c" "length parameters = 2"
  shows "fst (parse_options strtoul cs parameters initial_options) =
     (if length (filter is_exclude cs) \<le> 999 then 0 else 1)"
proof -
  have *: "fst (parse_options_loop strtoul cs initial_options) =
     (if length (filter is_exclude cs) \<le> 999 then None else Some 1)"
    using parse_options_loop_excludes [OF assms(1), of initial_options]
    by (simp add: initial_options_def)
  show ?thesis
  proof (cases "parse_options_loop strtoul cs initial_options")
    case (Pair r v1)
    then show ?thesis using * assms(2)
      by (cases r) (auto simp: parse_options_def split: if_splits)
  qed
qed

text \<open>C9, as amended.  The standalone watcher accepts \<open>-e\<close>/\<open>--exclude\<close> up to 999
  times: for a command line with two positional arguments whose options are excludes,
  the debug flag and numeric options that convert, \<^verbatim>\<open>parse_options\<close> returns 0 when
  it carries 999 or fewer exclude patterns and returns 1 (an error) when it carries
  more.\<close>

theorem parse_options_exclude_limit:
  assumes "\<forall>c \<in> set cs. plain_option strtoul c" "length parameters = 2"
  shows "fst (parse_options strtoul cs parameters initial_options) =
     (if length (filter is_exclude cs) \<le> 999 then 0 else 1)"
  using assms by (rule parse_options_excludes)

theorem parse_options_exclude_limit_witness:
  "fst (parse_options (\<lambda>s. None) (replicate 999 (OPT_e ''*.log''))
         [''/srv/data'', ''/var/spool/changes''] initial_options) = 0"
proof -
  have p: "\<forall>c\<in>set (replicate 999 (OPT_e ''*.log'')). plain_option (\<lambda>s. None) c"
    by (simp only: all_set_replicate plain_option.simps) simp
  have l: "length [''/srv/data'', ''/var/spool/changes''] = 2" by simp
  have f: "length (filter is_exclude (replicate 999 (OPT_e ''*.log''))) = 999"
    by (simp only: filter_replicate is_exclude.simps if_True length_replicate)
  from parse_options_exclude_limit [OF p l] f show ?thesis by simp
qed

text \<open>C9 as stated fails: a command line with exactly 1000 exclude patterns is refused
  with an error.\<close>

theorem parse_options_1000_excludes_fail:
  "fst (parse_options (\<lambda>s. None) (replicate 1000 (OPT_e ''*.log''))
         [''/srv/data'', ''/var/spool/changes''] initial_options) = 1"
proof -
  have p: "\<forall>c\<in>set (replicate 1000 (OPT_e ''*.log'')). plain_option (\<lambda>s. None) c"
    by (simp only: all_set_replicate plain_option.simps) simp
  have l: "length [''/srv/data'', ''/var/spool/changes''] = 2" by simp
  have f: "length (filter is_exclude (replicate 1000 (OPT_e ''*.log''))) = 1000"
    by (simp only: filter_replicate is_exclude.simps if_True length_replicate)
  from parse_options_excludes [OF p l] f show ?thesis by simp
qed

subsection \<open>Files owned by a directory\<close>

lemma dir_files_owned_D:
  "dir_files_owned st d \<Longrightarrow> dirs st d = Some dr \<Longrightarrow> p \<in> set (d_files dr) \<Longrightarrow>
     \<exists>f. files st p = Some f \<and> f_parent f = Some d"
  by (auto simp: dir_files_owned_def list_all_iff split: option.splits)







subsection \<open>A directory scan adds no changed path\<close>





















subsection \<open>The file check of a directory scan\<close>





subsection \<open>Create and modify events on files\<close>

lemma ds_leafname_scan_slash:
  assumes "CHR ''/'' \<notin> set n" "k \<le> Suc (length n)"
  shows "ds_leafname_scan (a @ CHR ''/'' # n) (length a + k) = length a"
  using assms(2)
proof (induction k)
  case 0
  show ?case
  proof (cases a)
    case Nil
    then show ?thesis by simp
  next
    case (Cons x xs)
    then show ?thesis by (simp add: c_char_at_def nth_append)
  qed
next
  case (Suc k)
  then have k: "k \<le> length n" by simp
  have "c_char_at (a @ CHR ''/'' # n) (Suc (length a + k)) \<noteq> CHR ''/''"
  proof (cases "k < length n")
    case True
    then have "n ! k \<in> set n" by simp
    with assms(1) have "n ! k \<noteq> CHR ''/''" by metis
    with True show ?thesis by (simp add: c_char_at_def nth_append)
  next
    case False
    with k show ?thesis by (simp add: c_char_at_def)
  qed
  then show ?case using Suc by simp
qed

lemma ds_leafname_joined:
  assumes "CHR ''/'' \<notin> set n"
  shows "ds_leafname (a @ ''/'' @ n) = n"
proof -
  have "ds_leafname_scan (a @ CHR ''/'' # n) (length a + Suc (length n)) = length a"
    by (rule ds_leafname_scan_slash[OF assms]) simp
  then have s: "ds_leafname_scan (a @ CHR ''/'' # n) (length (a @ CHR ''/'' # n)) = length a"
    by simp
  have c: "c_char_at (a @ CHR ''/'' # n) (length a) = CHR ''/''"
    by (simp add: c_char_at_def)
  show ?thesis using s c by (simp add: ds_leafname_def ds_leafname_pos_def Let_def)
qed

lemma change_queue_holds_file:
  "change_queue_holds q (Some p) None = (\<exists>e\<in>set q. cq_file e = Some p)"
  by (induction q) auto

lemma ds_change_queue_file_add_owned:
  assumes "files st p = Some f" "f_parent f = Some d" "dirs st d = Some dr"
  shows "ds_change_queue_file_add now st (Some p) 0 =
     (if change_queue_holds (change_queue st) (Some p) None then st
      else st\<lparr>change_queue := change_queue st @ [\<lparr>cq_when = now + 2, cq_file = Some p, cq_dir = None\<rparr>]\<rparr>)"
  using assms by (simp add: ds_change_queue_file_add_def ds_change_queue_add_def)

lemma ds_file_add_new:
  assumes "dirs st d = Some dr" "find_file_by_leaf st (d_files dr) nm = None"
  shows "ds_file_add st (Some d) nm =
     (Some (next_addr st),
      st\<lparr>files := (files st)(next_addr st \<mapsto>
                \<lparr>f_absolute_path = d_absolute_path dr @ ''/'' @ nm,
                 f_path = drop (top_path_length st dr + 1) (d_absolute_path dr @ ''/'' @ nm),
                 f_leaf = ds_leafname (d_absolute_path dr @ ''/'' @ nm),
                 f_mtime = 0, f_size = 0, f_parent = Some d, f_seen_in_rescan = False\<rparr>),
         dirs := (dirs st)(d \<mapsto> dr\<lparr>d_files := d_files dr @ [next_addr st]\<rparr>),
         next_addr := Suc (next_addr st)\<rparr>)"
  using assms by (simp add: ds_file_add_def Let_def)

lemma find_file_by_leaf_Some:
  "find_file_by_leaf st ps nm = Some p \<Longrightarrow>
     p \<in> set ps \<and> (\<exists>f. files st p = Some f \<and> f_leaf f = nm)"
  by (auto simp: find_file_by_leaf_def find_Some_iff split: option.splits)

text \<open>C4, as amended.  When an event with one of the create or modify bits the source
  tests (attrib, create, modify, moved-to) names an entry of a directory whose array
  holds live files of its own, the name passes the filter and \<^verbatim>\<open>lstat\<close> reports a
  regular file, then afterwards the directory holds a file node \<open>p\<close> of that leafname
  (the existing one, or a new one appended to the array), the queue holds a recheck of
  \<open>p\<close> (appended for two seconds later unless one was queued already), and the changed
  paths are left exactly as they were: the dispatcher marks nothing.\<close>

theorem process_file_change_create_modify:
  assumes d: "dirs st d = Some dr" and own: "dir_files_owned st d"
    and m: "ev_mask event AND (IN_ATTRIB OR IN_CREATE OR IN_MODIFY OR IN_MOVED_TO) \<noteq> 0"
    and v: "ds_filename_valid (fnmatch w) (excludes st) (ev_name event) \<noteq> 0"
    and l: "lstat w (d_absolute_path dr @ ''/'' @ ev_name event) = Some sb"
    and r: "st_mode sb = S_IFREG"
    and sl: "CHR ''/'' \<notin> set (ev_name event)"
    and p: "p = (case find_file_by_leaf st (d_files dr) (ev_name event) of
                   None \<Rightarrow> next_addr st | Some q \<Rightarrow> q)"
    and st': "st' = process_file_change w now st event d"
  shows "\<exists>f dr'. dirs st' d = Some dr' \<and> p \<in> set (d_files dr')
      \<and> files st' p = Some f \<and> f_leaf f = ev_name event \<and> f_parent f = Some d
      \<and> d_files dr' = (case find_file_by_leaf st (d_files dr) (ev_name event) of
                          None \<Rightarrow> d_files dr @ [p] | Some q \<Rightarrow> d_files dr)
      \<and> change_queue st' =
          (if change_queue_holds (change_queue st) (Some p) None then change_queue st
           else change_queue st @ [\<lparr>cq_when = now + 2, cq_file = Some p, cq_dir = None\<rparr>])
      \<and> change_queue_holds (change_queue st') (Some p) None
      \<and> changed_paths st' = changed_paths st"
proof (cases "find_file_by_leaf st (d_files dr) (ev_name event)")
  case None
  let ?nm = "ev_name event"
  let ?f = "\<lparr>f_absolute_path = d_absolute_path dr @ ''/'' @ ?nm,
             f_path = drop (top_path_length st dr + 1) (d_absolute_path dr @ ''/'' @ ?nm),
             f_leaf = ds_leafname (d_absolute_path dr @ ''/'' @ ?nm),
             f_mtime = 0, f_size = 0, f_parent = Some d, f_seen_in_rescan = False\<rparr>"
  let ?dr1 = "dr\<lparr>d_files := d_files dr @ [next_addr st]\<rparr>"
  let ?st1 = "st\<lparr>files := (files st)(next_addr st \<mapsto> ?f),
                 dirs := (dirs st)(d \<mapsto> ?dr1), next_addr := Suc (next_addr st)\<rparr>"
  from None p have pn: "p = next_addr st" by simp
  have act: "file_change_action (ev_mask event) None = IN_ACTION_CREATE"
    using m by (simp add: file_change_action_def)
  have add: "ds_file_add st (Some d) ?nm = (Some p, ?st1)"
    using ds_file_add_new[OF d None] pn by simp
  have f1: "files ?st1 p = Some ?f" using pn by simp
  have d1: "dirs ?st1 d = Some ?dr1" by simp
  have q1: "ds_change_queue_file_add now ?st1 (Some p) 0 =
     (if change_queue_holds (change_queue ?st1) (Some p) None then ?st1
      else ?st1\<lparr>change_queue := change_queue ?st1 @ [\<lparr>cq_when = now + 2, cq_file = Some p, cq_dir = None\<rparr>]\<rparr>)"
    by (rule ds_change_queue_file_add_owned[OF f1 _ d1]) simp
  have res: "st' = ds_change_queue_file_add now ?st1 (Some p) 0"
    unfolding st' using d None act v l r add
    by (simp add: process_file_change_def)
  have leaf: "f_leaf ?f = ?nm" using ds_leafname_joined[OF sl] by simp
  show ?thesis
  proof (intro exI[of _ ?f] exI[of _ ?dr1] conjI)
    show "dirs st' d = Some ?dr1" unfolding res q1 by simp
    show "p \<in> set (d_files ?dr1)" using pn by simp
    show "files st' p = Some ?f" unfolding res q1 using pn by simp
    show "f_leaf ?f = ?nm" by (rule leaf)
    show "f_parent ?f = Some d" by simp
    show "d_files ?dr1 = (case find_file_by_leaf st (d_files dr) ?nm of
                          None \<Rightarrow> d_files dr @ [p] | Some q \<Rightarrow> d_files dr)"
      using None pn by simp
    show "change_queue st' =
          (if change_queue_holds (change_queue st) (Some p) None then change_queue st
           else change_queue st @ [\<lparr>cq_when = now + 2, cq_file = Some p, cq_dir = None\<rparr>])"
      unfolding res q1 by simp
    show "change_queue_holds (change_queue st') (Some p) None"
      unfolding res q1 by (simp add: change_queue_holds_file)
    show "changed_paths st' = changed_paths st" unfolding res q1 by simp
  qed
next
  case (Some q)
  let ?nm = "ev_name event"
  from Some p have pq: "p = q" by simp
  from find_file_by_leaf_Some[OF Some] obtain f where
    qin: "q \<in> set (d_files dr)" and f: "files st q = Some f" "f_leaf f = ?nm" by blast
  from dir_files_owned_D[OF own d qin] f have par: "f_parent f = Some d" by simp
  have act: "file_change_action (ev_mask event) (Some q) = IN_ACTION_UPDATE"
    using m by (simp add: file_change_action_def)
  have q1: "ds_change_queue_file_add now st (Some q) 0 =
     (if change_queue_holds (change_queue st) (Some q) None then st
      else st\<lparr>change_queue := change_queue st @ [\<lparr>cq_when = now + 2, cq_file = Some q, cq_dir = None\<rparr>]\<rparr>)"
    by (rule ds_change_queue_file_add_owned[OF f(1) par d])
  have res: "st' = ds_change_queue_file_add now st (Some q) 0"
    unfolding st' using d Some act by (simp add: process_file_change_def)
  show ?thesis
  proof (intro exI[of _ f] exI[of _ dr] conjI)
    show "dirs st' d = Some dr" unfolding res q1 using d by simp
    show "p \<in> set (d_files dr)" using pq qin by simp
    show "files st' p = Some f" unfolding res q1 using pq f by simp
    show "f_leaf f = ?nm" by (rule f(2))
    show "f_parent f = Some d" by (rule par)
    show "d_files dr = (case find_file_by_leaf st (d_files dr) ?nm of
                          None \<Rightarrow> d_files dr @ [p] | Some q \<Rightarrow> d_files dr)"
      using Some by simp
    show "change_queue st' =
          (if change_queue_holds (change_queue st) (Some p) None then change_queue st
           else change_queue st @ [\<lparr>cq_when = now + 2, cq_file = Some p, cq_dir = None\<rparr>])"
      unfolding res q1 pq by simp
    show "change_queue_holds (change_queue st') (Some p) None"
      unfolding res q1 pq by (simp add: change_queue_holds_file)
    show "changed_paths st' = changed_paths st" unfolding res q1 by simp
  qed
qed

theorem process_file_change_create_modify_witness:
  "change_queue (process_file_change example_world 1000 example_state_new example_event 1)
     = [\<lparr>cq_when = 1002, cq_file = Some 4, cq_dir = None\<rparr>]
   \<and> changed_paths (process_file_change example_world 1000 example_state_new example_event 1) = []
   \<and> map_option d_files (dirs (process_file_change example_world 1000 example_state_new example_event 1) 1)
       = Some [3, 4]"
proof -
  have d: "dirs example_state_new 1 = Some (example_topdir\<lparr>d_files := [3]\<rparr>)"
    by (simp add: example_state_new_def)
  have own: "dir_files_owned example_state_new 1"
    by (simp add: dir_files_owned_def example_state_new_def example_gone_def)
  have m: "ev_mask example_event AND (IN_ATTRIB OR IN_CREATE OR IN_MODIFY OR IN_MOVED_TO) \<noteq> 0"
    by (simp add: example_event_def IN_ATTRIB_def IN_CREATE_def IN_MODIFY_def IN_MOVED_TO_def)
  have v: "ds_filename_valid (fnmatch example_world) (excludes example_state_new) (ev_name example_event) \<noteq> 0"
    by (simp add: ds_filename_valid_def example_state_new_def example_event_def)
  have l: "lstat example_world (d_absolute_path (example_topdir\<lparr>d_files := [3]\<rparr>) @ ''/'' @ ev_name example_event)
             = Some \<lparr>st_mode = S_IFREG, st_dev = 1, st_mtime = 1700000000, st_size = 8\<rparr>"
    by (simp add: example_world_def example_topdir_def example_event_def)
  have r: "st_mode \<lparr>st_mode = S_IFREG, st_dev = 1, st_mtime = 1700000000, st_size = 8\<rparr> = S_IFREG"
    by simp
  have sl: "CHR ''/'' \<notin> set (ev_name example_event)"
    by (simp add: example_event_def)
  have p: "4 = (case find_file_by_leaf example_state_new (d_files (example_topdir\<lparr>d_files := [3]\<rparr>)) (ev_name example_event) of
                   None \<Rightarrow> next_addr example_state_new | Some q \<Rightarrow> q)"
    by (simp add: find_file_by_leaf_def example_state_new_def example_gone_def example_event_def)
  have f: "find_file_by_leaf example_state_new (d_files (example_topdir\<lparr>d_files := [3]\<rparr>)) (ev_name example_event) = None"
    by (simp add: find_file_by_leaf_def example_state_new_def example_gone_def example_event_def)
  have q: "change_queue example_state_new = []" "changed_paths example_state_new = []"
    by (simp_all add: example_state_new_def)
  from process_file_change_create_modify [OF d own m v l r sl p refl, of 1000]
  obtain f' dr' where
    "dirs (process_file_change example_world 1000 example_state_new example_event 1) 1 = Some dr'"
    "d_files dr' = (case find_file_by_leaf example_state_new (d_files (example_topdir\<lparr>d_files := [3]\<rparr>)) (ev_name example_event) of
                          None \<Rightarrow> d_files (example_topdir\<lparr>d_files := [3]\<rparr>) @ [4] | Some q \<Rightarrow> d_files (example_topdir\<lparr>d_files := [3]\<rparr>))"
    "change_queue (process_file_change example_world 1000 example_state_new example_event 1) =
          (if change_queue_holds (change_queue example_state_new) (Some 4) None then change_queue example_state_new
           else change_queue example_state_new @ [\<lparr>cq_when = 1000 + 2, cq_file = Some 4, cq_dir = None\<rparr>])"
    "changed_paths (process_file_change example_world 1000 example_state_new example_event 1) = changed_paths example_state_new"
    by blast
  then show ?thesis using f q by simp
qed

text \<open>C4 as stated fails: after the create event for the regular file \<open>a.txt\<close>, which
  passes the filter, the changed paths are empty; the path of the parent directory
  has not been marked.\<close>

theorem process_file_change_parent_not_marked:
  "lstat example_world ''/top/a.txt'' = Some \<lparr>st_mode = S_IFREG, st_dev = 1, st_mtime = 1700000000, st_size = 8\<rparr>
   \<and> ds_filename_valid (fnmatch example_world) (excludes example_state_new) ''a.txt'' = 1
   \<and> map_option d_path (dirs example_state_new 1) = Some []
   \<and> changed_paths (process_file_change example_world 1000 example_state_new example_event 1) = []"
  by code_simp

subsection \<open>The change queue\<close>

text \<open>Insertion keeps the queue free of duplicates: \<^verbatim>\<open>_ds_change_queue_add\<close> appends
  nothing when a slot already holds the target.\<close>

lemma change_queue_holds_iff:
  "change_queue_holds q file dir =
     ((file \<noteq> None \<and> file \<in> cq_file ` set q) \<or> (dir \<noteq> None \<and> dir \<in> cq_dir ` set q))"
  by (induction q) auto

lemma set_map_filter: "set (List.map_filter f q) = {y. Some y \<in> f ` set q}"
  by (induction q) (auto simp: List.map_filter_simps split: option.splits)

lemma map_filter_append1:
  "List.map_filter f (q @ [e]) = List.map_filter f q @ (case f e of None \<Rightarrow> [] | Some y \<Rightarrow> [y])"
  by (simp add: List.map_filter_def split: option.splits)

lemma ds_change_queue_add_unique:
  assumes "change_queue_unique (change_queue st)"
  shows "change_queue_unique (change_queue (ds_change_queue_add st whn file dir))"
proof (cases "(file = None \<and> dir = None) \<or> change_queue_holds (change_queue st) file dir")
  case True
  then show ?thesis using assms by (auto simp: ds_change_queue_add_def)
next
  case False
  then have nh: "\<not> change_queue_holds (change_queue st) file dir" by simp
  have f: "file \<noteq> None \<Longrightarrow> file \<notin> cq_file ` set (change_queue st)"
    and d: "dir \<noteq> None \<Longrightarrow> dir \<notin> cq_dir ` set (change_queue st)"
    using nh by (auto simp: change_queue_holds_iff)
  have q: "change_queue (ds_change_queue_add st whn file dir) =
      change_queue st @ [\<lparr>cq_when = whn, cq_file = file, cq_dir = dir\<rparr>]"
    using False by (simp add: ds_change_queue_add_def)
  show ?thesis unfolding q change_queue_unique_def map_filter_append1
    using assms f d
    by (auto simp: change_queue_unique_def set_map_filter split: option.splits)
qed

text \<open>C1 (the code's behaviour at the failing input).  A queue of two tombstones followed
  by two entries that are not yet due (time 50, entries due at 100) comes out of one
  pass of \<^verbatim>\<open>ds_change_queue_process\<close> with four slots, not two: the first kept entry
  is copied down to slot 0 and the write index is then incremented twice, so slot 1
  keeps its tombstone, and the second kept entry is likewise copied to slot 2 and left
  behind in slot 3.\<close>

theorem ds_change_queue_process_leaves_gaps:
  "map_option change_queue
     (ds_change_queue_process 5 example_world (\<lambda>i. 50)
        (example_state\<lparr>change_queue := [entry_tombstone, entry_tombstone, entry_later, entry_later_b]\<rparr>) 55)
   = Some [entry_later, entry_tombstone, entry_later_b, entry_later_b]"
  by code_simp

text \<open>C2 (the code's behaviour at the failing input).  A queue with one entry per file,
  the first due and the second not, has no node in two slots before the pass; after
  the pass the first entry has been processed and the second one stands in both slots
  of the queue.\<close>

theorem ds_change_queue_process_duplicates_entry:
  "change_queue_unique [entry_due, entry_later_b]
  \<and> map_option (\<lambda>s. (change_queue s, change_queue_unique (change_queue s)))
     (ds_change_queue_process 3 example_world (\<lambda>i. 50)
        (example_state\<lparr>change_queue := [entry_due, entry_later_b]\<rparr>) 55)
   = Some ([entry_later_b, entry_later_b], False)"
  by code_simp

subsection \<open>Well-formed watcher states\<close>















lemma ds_leafname_scan_le: "ds_leafname_scan s n \<le> n"
  by (induction n) (auto simp: le_Suc_eq)


subsection \<open>Removing a directory\<close>






















subsection \<open>What a scan leaves alone\<close>











subsection \<open>Steps of a scan that free nothing\<close>




lemma dir_step_same_arrays:
  "dir_step x st st' \<Longrightarrow> watch_tree st'"
  unfolding dir_step_def by blast







lemma dir_step_live: "dir_step x st st' \<Longrightarrow> dirs st' x \<noteq> None"
  unfolding dir_step_def by auto





subsection \<open>The loops over the files of a scanned directory\<close>










subsection \<open>Enough fuel\<close>





subsection \<open>The scan of a directory\<close>















text \<open>The state \<^verbatim>\<open>watch_dir\<close> starts from is well-formed.\<close>

lemma watch_tree_ds_dir_toplevel: "watch_tree (ds_dir_toplevel a max_depth excl fd real_path)"
  unfolding watch_tree_def heap_fresh_def dir_files_owned_def dir_leaves_distinct_def
    dir_subdirs_owned_def
  by (auto simp: ds_dir_toplevel_def split: if_splits)




end
